theory Spec2Isabelle
  imports Complex_Main
begin

section \<open>Python values shared by the models\<close>

text \<open>
  Exceptions of the Python sources, as values; \<open>NotTrained\<close> is the plain \<^verbatim>\<open>Exception\<close>
  that predict\_station\_rating raises without a model.
\<close>

datatype py_exception =
  ValueError | TypeError | AttributeError | IndexError | ZeroDivisionError | NotTrained

text \<open>
  A float64 cell of a pandas column or a numpy array: a finite number, or one of the
  special values that division by zero and missing data produce. Finite arithmetic is
  exact (no rounding, no overflow).
\<close>

datatype npfloat = Fin real | PInf | NInf | NaN

section \<open>distance\_category: the three bucketings\<close>

text \<open>
  \<^verbatim>\<open>pd.cut(x, bins, labels, include_lowest)\<close> with the default \<^verbatim>\<open>right=True\<close>: the
  intervals are open on the left and closed on the right, a value outside every interval
  is missing (\<open>None\<close>, NaN after \<^verbatim>\<open>astype(float)\<close>), and \<^verbatim>\<open>include_lowest\<close> adds the
  lowest edge to the first interval.
\<close>

fun cut_bins :: "real \<Rightarrow> real list \<Rightarrow> real list \<Rightarrow> real option" where
  "cut_bins x (lo # hi # bs) (l # ls) =
     (if lo < x \<and> x \<le> hi then Some l else cut_bins x (hi # bs) ls)"
| "cut_bins x _ _ = None"

definition pd_cut :: "real \<Rightarrow> real list \<Rightarrow> real list \<Rightarrow> bool \<Rightarrow> real option" where
  "pd_cut x bins labels include_lowest =
     (case (bins, labels) of
        (b # _, l # _) \<Rightarrow> if include_lowest \<and> x = b then Some l else cut_bins x bins labels
      | _ \<Rightarrow> None)"

definition astype_float :: "real option \<Rightarrow> npfloat" where
  "astype_float c = (case c of None \<Rightarrow> NaN | Some l \<Rightarrow> Fin l)"

text \<open>trainModel.py, prepare\_training\_features, lines 81-83.\<close>

definition training_distance_category :: "real \<Rightarrow> npfloat" where
  "training_distance_category distance_km =
     astype_float (pd_cut distance_km [0, 5, 15, 30, 100] [0, 1, 2, 3] False)"

text \<open>recommend.py, predict\_ratings, line 81.\<close>

definition serving_distance_category :: "real \<Rightarrow> npfloat" where
  "serving_distance_category distance_km =
     astype_float (pd_cut distance_km [0, 5, 15, 100] [1, 2, 3] True)"

text \<open>trainModel.py, predict\_station\_rating, line 289.\<close>

definition single_pair_distance_category :: "real \<Rightarrow> real" where
  "single_pair_distance_category distance_km =
     (if distance_km < 5 then 1 else (if distance_km < 15 then 2 else 3))"

section \<open>JSON values and Python's operations on them\<close>

text \<open>
  The station directory answers with JSON; \<^verbatim>\<open>response.json()\<close> turns it into Python
  values. Numbers are exact; a string is its list of characters (ASCII: Python's slices
  count code points); an object is an association list with one entry per key.
\<close>

datatype json =
  JNull | JBool bool | JNum real | JStr string | JArr "json list"
  | JObj "(string \<times> json) list"

type_synonym py_dict = "(string \<times> json) list"

definition ebind :: "'e + 'a \<Rightarrow> ('a \<Rightarrow> 'e + 'b) \<Rightarrow> 'e + 'b" where
  "ebind m f = (case m of Inl e \<Rightarrow> Inl e | Inr v \<Rightarrow> f v)"

text \<open>Truth value testing: \<^verbatim>\<open>None\<close>, \<^verbatim>\<open>False\<close>, zero and empty containers are false.\<close>

fun truthy :: "json \<Rightarrow> bool" where
  "truthy JNull = False"
| "truthy (JBool b) = b"
| "truthy (JNum x) = (x \<noteq> 0)"
| "truthy (JStr s) = (s \<noteq> [])"
| "truthy (JArr xs) = (xs \<noteq> [])"
| "truthy (JObj kv) = (kv \<noteq> [])"

definition dict_get :: "py_dict \<Rightarrow> string \<Rightarrow> json \<Rightarrow> json" where
  "dict_get d k dflt = (case map_of d k of Some v \<Rightarrow> v | None \<Rightarrow> dflt)"

text \<open>\<^verbatim>\<open>x.get(k, default)\<close>: only a dict has the method.\<close>

fun py_get :: "json \<Rightarrow> string \<Rightarrow> json \<Rightarrow> py_exception + json" where
  "py_get (JObj d) k dflt = Inr (dict_get d k dflt)"
| "py_get _ k dflt = Inl AttributeError"

text \<open>\<^verbatim>\<open>x[:n]\<close>: strings and lists can be sliced.\<close>

fun py_slice :: "nat \<Rightarrow> json \<Rightarrow> py_exception + json" where
  "py_slice n (JStr s) = Inr (JStr (take n s))"
| "py_slice n (JArr xs) = Inr (JArr (take n xs))"
| "py_slice n _ = Inl TypeError"

text \<open>\<^verbatim>\<open>len(x)\<close>.\<close>

fun py_len :: "json \<Rightarrow> py_exception + nat" where
  "py_len (JStr s) = Inr (length s)"
| "py_len (JArr xs) = Inr (length xs)"
| "py_len (JObj kv) = Inr (length kv)"
| "py_len _ = Inl TypeError"

text \<open>\<^verbatim>\<open>for x in v\<close>: a string yields its characters, a dict its keys.\<close>

fun py_iter :: "json \<Rightarrow> py_exception + json list" where
  "py_iter (JArr xs) = Inr xs"
| "py_iter (JStr s) = Inr (map (\<lambda>c. JStr [c]) s)"
| "py_iter (JObj kv) = Inr (map (\<lambda>p. JStr (fst p)) kv)"
| "py_iter _ = Inl TypeError"

text \<open>A value used as a number (\<^verbatim>\<open>max\<close> against a number, \<^verbatim>\<open>math.radians\<close>).\<close>

fun py_number :: "json \<Rightarrow> py_exception + real" where
  "py_number (JNum x) = Inr x"
| "py_number (JBool b) = Inr (if b then 1 else 0)"
| "py_number _ = Inl TypeError"

text \<open>
  \<^verbatim>\<open>round(x, ndigits)\<close>: to the nearest multiple of \<open>10 ^ -ndigits\<close>, a tie to the even
  neighbour.
\<close>

definition rint :: "real \<Rightarrow> int" where
  "rint x = (let f = \<lfloor>x\<rfloor> in
     if x - of_int f < 1 / 2 then f
     else if 1 / 2 < x - of_int f then f + 1
     else if even f then f else f + 1)"

definition py_round :: "real \<Rightarrow> nat \<Rightarrow> real" where
  "py_round x ndigits = of_int (rint (x * 10 ^ ndigits)) / 10 ^ ndigits"

section \<open>GeoDistance: dataCollector.py, \_calculate\_distance\<close>

definition radians :: "real \<Rightarrow> real" where
  "radians x = x * pi / 180"

text \<open>
  The haversine formula, in exact real arithmetic: the roundings of the double-precision
  \<^verbatim>\<open>sin\<close>, \<^verbatim>\<open>cos\<close>, \<^verbatim>\<open>sqrt\<close> and \<^verbatim>\<open>asin\<close> are not modelled. \<^verbatim>\<open>math.sqrt\<close> and
  \<^verbatim>\<open>math.asin\<close> raise outside their domains; over the reals the argument stays inside
  (lemma \<open>haversine_a_unit\<close>).
\<close>

definition haversine_a :: "real \<Rightarrow> real \<Rightarrow> real \<Rightarrow> real \<Rightarrow> real" where
  "haversine_a lat1 lng1 lat2 lng2 =
     (let dlng = lng2 - lng1; dlat = lat2 - lat1
      in (sin (dlat / 2))\<^sup>2 + cos lat1 * cos lat2 * (sin (dlng / 2))\<^sup>2)"

definition calculate_distance :: "real \<Rightarrow> real \<Rightarrow> real \<Rightarrow> real \<Rightarrow> real" where
  "calculate_distance lat1 lng1 lat2 lng2 =
     (let a = haversine_a (radians lat1) (radians lng1) (radians lat2) (radians lng2);
          c = 2 * arcsin (sqrt a);
          r = 6371
      in c * r)"

section \<open>StationNormalizer: dataCollector.py, \_process\_raw\_stations\<close>

record station =
  station_id :: json
  name :: json
  address :: json
  city :: json
  state :: json
  country :: json
  latitude :: real
  longitude :: real
  distance_from_search_center :: real
  total_connections :: nat
  max_power_kw :: real
  charger_category :: string
  connection_types :: "string set"
  operator :: json
  is_operational :: nat
  status :: json
  last_updated :: json
  data_provider :: json

text \<open>Lines 174-179 (and 318-323): the speed class of the most powerful connector.\<close>

definition classify_charger :: "real \<Rightarrow> string" where
  "classify_charger kw =
     (if kw \<ge> 50 then ''superfast''
      else if kw \<ge> 22 then ''fast''
      else ''slow'')"

text \<open>
  The loop over the connectors (lines 161-167): the running maximum of \<^verbatim>\<open>PowerKW\<close>
  (a missing, null or zero power counts as 0) and the titles of the connection types.
\<close>

fun scan_connections ::
  "json list \<Rightarrow> real \<Rightarrow> json list \<Rightarrow> py_exception + (real \<times> json list)" where
  "scan_connections [] max_power types = Inr (max_power, types)"
| "scan_connections (conn # conns) max_power types =
     ebind (py_get conn ''PowerKW'' JNull) (\<lambda>p.
     ebind (py_number (if truthy p then p else JNum 0)) (\<lambda>kw.
     ebind (py_get conn ''ConnectionType'' (JObj [])) (\<lambda>conn_type.
     ebind (if truthy conn_type
            then ebind (py_get conn_type ''Title'' (JStr ''Unknown''))
                   (\<lambda>t. Inr (types @ [t]))
            else Inr types) (\<lambda>types'.
     scan_connections conns (max max_power kw) types'))))"

text \<open>\<^verbatim>\<open>', '.join(set(titles)) if titles else 'Unknown'\<close>: every title must be a string.\<close>

fun title_strings :: "json list \<Rightarrow> py_exception + string list" where
  "title_strings [] = Inr []"
| "title_strings (JStr s # ts) = ebind (title_strings ts) (\<lambda>ss. Inr (s # ss))"
| "title_strings (_ # ts) = Inl TypeError"

definition join_connection_types :: "json list \<Rightarrow> py_exception + string set" where
  "join_connection_types types =
     (if types = [] then Inr {''Unknown''}
      else ebind (title_strings types) (\<lambda>ss. Inr (set ss)))"

text \<open>
  What one pass of the loop body does with a raw record: it appends a station, leaves
  the body at \<^verbatim>\<open>continue\<close> (line 151), or raises, which the handler of line 217 turns
  into a warning.
\<close>

datatype item_result = Normalized station | Skipped | Warned py_exception

definition station_fields ::
  "real \<Rightarrow> real \<Rightarrow> py_dict \<Rightarrow> json \<Rightarrow> json \<Rightarrow> json \<Rightarrow> py_exception + station" where
  "station_fields center_lat center_lng raw addr_info lat lng =
     (let connections = dict_get raw ''Connections'' (JArr []) in
     ebind (if truthy connections then py_len connections else Inr 1) (\<lambda>n_total.
     ebind (py_iter connections) (\<lambda>conns.
     ebind (scan_connections conns 0 []) (\<lambda>(top_kw, types).
     (let max_power = (if top_kw = 0 then 7 else top_kw);
          category = classify_charger max_power in
     ebind (py_number lat) (\<lambda>lat_r.
     ebind (py_number lng) (\<lambda>lng_r.
     (let distance_km = calculate_distance center_lat center_lng lat_r lng_r;
          status_info = dict_get raw ''StatusType'' (JObj []);
          operator_info = dict_get raw ''OperatorInfo'' (JObj []) in
     ebind (ebind (py_get addr_info ''Title'' (JStr ''Unknown Station'')) (py_slice 50)) (\<lambda>nm.
     ebind (ebind (py_get addr_info ''AddressLine1'' (JStr [])) (py_slice 100)) (\<lambda>addr.
     ebind (py_get addr_info ''Town'' (JStr ''Unknown'')) (\<lambda>town.
     ebind (py_get addr_info ''StateOrProvince'' (JStr [])) (\<lambda>st.
     ebind (ebind (py_get addr_info ''Country'' (JObj []))
              (\<lambda>c. py_get c ''Title'' (JStr []))) (\<lambda>ctry.
     ebind (join_connection_types types) (\<lambda>ctypes.
     ebind (ebind (py_get operator_info ''Title'' (JStr ''Unknown'')) (py_slice 30)) (\<lambda>opr.
     ebind (py_get status_info ''IsOperational'' JNull) (\<lambda>is_op.
     ebind (py_get status_info ''Title'' (JStr ''Unknown'')) (\<lambda>stat.
     ebind (py_get (dict_get raw ''DataProvider'' (JObj [])) ''Title''
              (JStr ''OpenChargeMap'')) (\<lambda>provider.
     Inr \<lparr> station_id = dict_get raw ''ID'' JNull,
           name = nm, address = addr, city = town, state = st, country = ctry,
           latitude = lat_r, longitude = lng_r,
           distance_from_search_center = py_round distance_km 2,
           total_connections = n_total, max_power_kw = max_power,
           charger_category = category, connection_types = ctypes,
           operator = opr, is_operational = (if truthy is_op then 1 else 0),
           status = stat,
           last_updated = dict_get raw ''DateLastStatusUpdate'' (JStr []),
           data_provider = provider \<rparr>))))))))))))))))))"

definition process_raw_station :: "real \<Rightarrow> real \<Rightarrow> py_dict \<Rightarrow> item_result" where
  "process_raw_station center_lat center_lng raw =
     (let addr_info = dict_get raw ''AddressInfo'' (JObj []) in
      case py_get addr_info ''Latitude'' JNull of
        Inl e \<Rightarrow> Warned e
      | Inr lat \<Rightarrow>
         (case py_get addr_info ''Longitude'' JNull of
            Inl e \<Rightarrow> Warned e
          | Inr lng \<Rightarrow>
             if \<not> truthy lat \<or> \<not> truthy lng then Skipped
             else (case station_fields center_lat center_lng raw addr_info lat lng of
                     Inl e \<Rightarrow> Warned e
                   | Inr s \<Rightarrow> Normalized s)))"

text \<open>The stations the loop collects, in order (\<^verbatim>\<open>processed_stations\<close>).\<close>

definition collect_processed :: "real \<Rightarrow> real \<Rightarrow> py_dict list \<Rightarrow> station list" where
  "collect_processed center_lat center_lng raw_stations =
     concat (map (\<lambda>raw. case process_raw_station center_lat center_lng raw of
                           Normalized s \<Rightarrow> [s] | _ \<Rightarrow> []) raw_stations)"

text \<open>
  A raw record as the directory returns it, with the latitude left open: a superfast
  station of a major operator.
\<close>

definition example_raw_station :: "real \<Rightarrow> py_dict" where
  "example_raw_station lat =
     [(''ID'', JNum 1001),
      (''AddressInfo'', JObj [(''Title'', JStr ''Equator Plaza''),
                              (''Latitude'', JNum lat), (''Longitude'', JNum 77.59)]),
      (''Connections'', JArr [JObj [(''PowerKW'', JNum 50)]]),
      (''StatusType'', JObj [(''IsOperational'', JBool True)]),
      (''OperatorInfo'', JObj [(''Title'', JStr ''Tata Power'')])]"

section \<open>Float columns: division, fillna, replace\<close>

text \<open>
  Division and multiplication of float64 cells as numpy does them: a nonzero number
  divided by zero is an infinity, \<open>0 / 0\<close>, \<open>inf / inf\<close> and \<open>0 * inf\<close> are NaN, and
  NaN propagates. (The sign of a zero is not modelled: the infinity takes the sign of the
  numerator.)
\<close>

fun np_div :: "npfloat \<Rightarrow> npfloat \<Rightarrow> npfloat" where
  "np_div (Fin a) (Fin b) =
     (if b \<noteq> 0 then Fin (a / b)
      else if a > 0 then PInf else if a < 0 then NInf else NaN)"
| "np_div (Fin a) PInf = Fin 0"
| "np_div (Fin a) NInf = Fin 0"
| "np_div PInf (Fin b) = (if b < 0 then NInf else PInf)"
| "np_div NInf (Fin b) = (if b < 0 then PInf else NInf)"
| "np_div _ _ = NaN"

fun np_mul :: "npfloat \<Rightarrow> npfloat \<Rightarrow> npfloat" where
  "np_mul (Fin a) (Fin b) = Fin (a * b)"
| "np_mul (Fin a) PInf = (if a > 0 then PInf else if a < 0 then NInf else NaN)"
| "np_mul (Fin a) NInf = (if a > 0 then NInf else if a < 0 then PInf else NaN)"
| "np_mul PInf (Fin b) = (if b > 0 then PInf else if b < 0 then NInf else NaN)"
| "np_mul NInf (Fin b) = (if b > 0 then NInf else if b < 0 then PInf else NaN)"
| "np_mul PInf PInf = PInf"
| "np_mul NInf NInf = PInf"
| "np_mul PInf NInf = NInf"
| "np_mul NInf PInf = NInf"
| "np_mul _ _ = NaN"

fun isna :: "npfloat \<Rightarrow> bool" where
  "isna NaN = True"
| "isna _ = False"

fun is_finite :: "npfloat \<Rightarrow> bool" where
  "is_finite (Fin x) = True"
| "is_finite _ = False"

text \<open>\<^verbatim>\<open>.fillna(v)\<close> and \<^verbatim>\<open>.replace([np.inf, -np.inf], v)\<close> on one cell.\<close>

definition fillna :: "npfloat \<Rightarrow> npfloat \<Rightarrow> npfloat" where
  "fillna v x = (if isna x then v else x)"

fun replace_inf :: "npfloat \<Rightarrow> npfloat \<Rightarrow> npfloat" where
  "replace_inf v PInf = v"
| "replace_inf v NInf = v"
| "replace_inf v x = x"

section \<open>Engineered features: the three call sites\<close>

text \<open>
  trainModel.py, prepare\_training\_features, lines 100-103, on one row of the merged
  training table: the operands are \<^verbatim>\<open>available_slots_at_booking\<close>,
  \<^verbatim>\<open>total_connections_x\<close>, \<^verbatim>\<open>max_power_kw_x\<close> and \<^verbatim>\<open>price_paid_per_kwh\<close>.
\<close>

definition training_availability_ratio :: "npfloat \<Rightarrow> npfloat \<Rightarrow> npfloat" where
  "training_availability_ratio slots n_total = np_div slots n_total"

definition training_power_efficiency :: "npfloat \<Rightarrow> npfloat \<Rightarrow> npfloat" where
  "training_power_efficiency kw price = np_div kw price"

definition training_value_score :: "npfloat \<Rightarrow> npfloat \<Rightarrow> npfloat \<Rightarrow> npfloat \<Rightarrow> npfloat" where
  "training_value_score kw slots n_total price = np_div (np_mul kw (np_div slots n_total)) price"

text \<open>recommend.py, predict\_ratings, lines 82-85, on one row of the feature table.\<close>

definition serving_availability_ratio :: "npfloat \<Rightarrow> npfloat \<Rightarrow> npfloat" where
  "serving_availability_ratio slots n_total = fillna (Fin 0) (np_div slots n_total)"

definition serving_power_efficiency :: "npfloat \<Rightarrow> npfloat \<Rightarrow> npfloat" where
  "serving_power_efficiency kw price = fillna (Fin 0) (replace_inf (Fin 0) (np_div kw price))"

definition serving_value_score :: "npfloat \<Rightarrow> npfloat \<Rightarrow> npfloat" where
  "serving_value_score power_efficiency availability_ratio =
     fillna (Fin 0) (np_mul power_efficiency availability_ratio)"

text \<open>
  modelTest.py, \_get\_ml\_recommendations, lines 93-104 and 119, on the scalars of one
  station row (a pandas row holds numbers or NaN, never \<^verbatim>\<open>None\<close>).
\<close>

definition tester_price_per_km :: "npfloat \<Rightarrow> npfloat \<Rightarrow> npfloat" where
  "tester_price_per_km price distance_km =
     (if \<not> isna price \<and> \<not> isna distance_km then np_mul price distance_km else Fin 0)"

definition tester_power_efficiency :: "npfloat \<Rightarrow> npfloat \<Rightarrow> npfloat" where
  "tester_power_efficiency kw price =
     (if isna price \<or> price = Fin 0 then Fin 0
      else if \<not> isna kw then np_div kw price else Fin 0)"

definition tester_value_score :: "npfloat \<Rightarrow> npfloat \<Rightarrow> npfloat \<Rightarrow> npfloat \<Rightarrow> npfloat" where
  "tester_value_score kw slots n_total price =
     (if isna price \<or> price = Fin 0 then Fin 0
      else if isna n_total \<or> n_total = Fin 0 then Fin 0
      else (let availability_ratio =
                  (if \<not> isna slots \<and> \<not> isna n_total then np_div slots n_total else Fin 0)
            in np_div (np_mul kw availability_ratio) price))"

definition tester_availability_ratio :: "npfloat \<Rightarrow> npfloat \<Rightarrow> npfloat" where
  "tester_availability_ratio slots n_total =
     (if \<not> isna slots \<and> \<not> isna n_total \<and> n_total \<noteq> Fin 0 then np_div slots n_total else Fin 0)"

section \<open>The pseudo-random generator\<close>

text \<open>
  numpy's global generator is not part of the repository; it is a parameter of the
  model. A generator is a state type \<open>'s\<close> with the operations the sources call:
  \<^verbatim>\<open>np.random.seed\<close>, one unit sample (\<^verbatim>\<open>random_sample\<close>, in \<open>[0, 1)\<close>), one bounded
  integer (\<^verbatim>\<open>randint(low, high)\<close>, in \<open>[low, high)\<close>), one normal deviate and one weighted
  choice of an index (\<^verbatim>\<open>choice(n, p=...)\<close>, or a uniform one when no weights are given,
  as \<^verbatim>\<open>DataFrame.sample(1)\<close> draws it). Every draw returns the next state.
\<close>

record 's np_random =
  rng_seed :: "nat \<Rightarrow> 's"
  rng_random :: "'s \<Rightarrow> real \<times> 's"
  rng_randint :: "int \<Rightarrow> int \<Rightarrow> 's \<Rightarrow> int \<times> 's"
  rng_normal :: "real \<Rightarrow> real \<Rightarrow> 's \<Rightarrow> real \<times> 's"
  rng_choice :: "nat \<Rightarrow> real list option \<Rightarrow> 's \<Rightarrow> py_exception + nat \<times> 's"

text \<open>\<^verbatim>\<open>np.random.uniform(low, high)\<close> is \<open>low + (high - low) * random_sample()\<close>.\<close>

definition np_uniform :: "'s np_random \<Rightarrow> real \<Rightarrow> real \<Rightarrow> 's \<Rightarrow> real \<times> 's" where
  "np_uniform g low high s = (case rng_random g s of (u, s') \<Rightarrow> (low + (high - low) * u, s'))"

text \<open>A vector of draws is made element by element, in order.\<close>

fun draw_each :: "('a \<Rightarrow> 's \<Rightarrow> 'b \<times> 's) \<Rightarrow> 'a list \<Rightarrow> 's \<Rightarrow> 'b list \<times> 's" where
  "draw_each f [] s = ([], s)"
| "draw_each f (x # xs) s =
     (case f x s of (y, s') \<Rightarrow> (case draw_each f xs s' of (ys, s'') \<Rightarrow> (y # ys, s'')))"

definition np_uniform_n ::
  "'s np_random \<Rightarrow> real \<Rightarrow> real \<Rightarrow> nat \<Rightarrow> 's \<Rightarrow> real list \<times> 's" where
  "np_uniform_n g low high n s = draw_each (\<lambda>_. np_uniform g low high) (replicate n ()) s"

definition np_randint_n ::
  "'s np_random \<Rightarrow> int \<Rightarrow> int \<Rightarrow> nat \<Rightarrow> 's \<Rightarrow> int list \<times> 's" where
  "np_randint_n g low high n s = draw_each (\<lambda>_. rng_randint g low high) (replicate n ()) s"

text \<open>
  \<^verbatim>\<open>np.random.randint(low, highs)\<close> with an array of upper bounds: \<^verbatim>\<open>ValueError\<close>
  before any draw when some bound is not above \<open>low\<close>.
\<close>

definition np_randint_each ::
  "'s np_random \<Rightarrow> int \<Rightarrow> int list \<Rightarrow> 's \<Rightarrow> py_exception + int list \<times> 's" where
  "np_randint_each g low highs s =
     (if list_ex (\<lambda>h. h \<le> low) highs then Inl ValueError
      else Inr (draw_each (rng_randint g low) highs s))"

section \<open>Simulated real-time data\<close>

subsection \<open>Training side: dataCollector.py, \_add\_simulated\_realtime\_data\<close>

record sim_station = station +
  available_slots :: int
  simulated_price_per_kwh :: real
  simulated_avg_wait_minutes :: int
  reliability_score :: real

text \<open>
  \<^verbatim>\<open>str.contains(pattern, case=False, na=False)\<close> for an alternation of literal words:
  some word occurs in the text, letters compared without case (ASCII letters only); a
  cell that is not a string counts as no match.
\<close>

definition lower_char :: "char \<Rightarrow> char" where
  "lower_char c = (let n = (of_char c :: nat) in if 65 \<le> n \<and> n \<le> 90 then char_of (n + 32) else c)"

fun is_substring :: "string \<Rightarrow> string \<Rightarrow> bool" where
  "is_substring p [] = (p = [])"
| "is_substring p (c # cs) = (take (length p) (c # cs) = p \<or> is_substring p cs)"

definition str_contains_any :: "string list \<Rightarrow> json \<Rightarrow> bool" where
  "str_contains_any words cell =
     (case cell of
        JStr s \<Rightarrow> list_ex (\<lambda>w. is_substring (map lower_char w) (map lower_char s)) words
      | _ \<Rightarrow> False)"

definition major_operators :: "string list" where
  "major_operators = [''Tata Power'', ''Ather'', ''ChargePoint'', ''BPCL'']"

definition base_prices :: "string \<Rightarrow> real \<times> real" where
  "base_prices category =
     (if category = ''slow'' then (6, 10)
      else if category = ''fast'' then (8, 13)
      else if category = ''superfast'' then (10, 16)
      else (7, 12))"

definition draw_price :: "'s np_random \<Rightarrow> station \<Rightarrow> 's \<Rightarrow> real \<times> 's" where
  "draw_price g row s =
     (case base_prices (charger_category row) of
        (lo, hi) \<Rightarrow> (case np_uniform g lo hi s of (price, s') \<Rightarrow> (py_round price 2, s')))"

fun add_columns ::
  "station list \<Rightarrow> int list \<Rightarrow> real list \<Rightarrow> int list \<Rightarrow> real list \<Rightarrow> sim_station list" where
  "add_columns (st # sts) (a # as) (p # ps) (w # ws) (r # rs) =
     station.extend st \<lparr> available_slots = a, simulated_price_per_kwh = p,
                          simulated_avg_wait_minutes = w, reliability_score = r \<rparr>
     # add_columns sts as ps ws rs"
| "add_columns _ _ _ _ _ = []"

text \<open>
  The function seeds the generator first, so the state \<open>s0\<close> it finds is never read. It
  returns the extended table and the state it leaves behind.
\<close>

definition add_simulated_realtime_data ::
  "'s np_random \<Rightarrow> station list \<Rightarrow> 's \<Rightarrow> py_exception + sim_station list \<times> 's" where
  "add_simulated_realtime_data g df s0 =
     (let s1 = rng_seed g 42 in
      ebind (np_randint_each g 0 (map (\<lambda>row. int (total_connections row) + 1) df) s1)
        (\<lambda>(slots, s2).
      case draw_each (draw_price g) df s2 of (prices, s3) \<Rightarrow>
      case np_randint_n g 5 45 (length df) s3 of (waits, s4) \<Rightarrow>
      case np_uniform_n g 0.85 0.98 (length df) s4 of (major, s5) \<Rightarrow>
      case np_uniform_n g 0.65 0.85 (length df) s5 of (minor, s6) \<Rightarrow>
      (let reliability =
             map (\<lambda>(row, a, b).
                    py_round (if str_contains_any major_operators (operator row) then a else b) 2)
                 (zip df (zip major minor))
       in Inr (add_columns df slots prices waits reliability, s6))))"

subsection \<open>Serving side: recommend.py, predict\_ratings, lines 55-60\<close>

record serving_station =
  sv_distance :: npfloat
  sv_total_connections :: int
  sv_max_power_kw :: npfloat
  sv_usage_cost :: npfloat
  sv_charger_category :: string
  sv_other_fields :: py_dict

definition serving_simulation ::
  "'s np_random \<Rightarrow> int list \<Rightarrow> 's \<Rightarrow> py_exception + (int list \<times> real list) \<times> 's" where
  "serving_simulation g total_connections_column s0 =
     (let s1 = rng_seed g 42 in
      ebind (np_randint_each g 0 (map (\<lambda>t. t + 1) total_connections_column) s1)
        (\<lambda>(slots, s2).
      case np_uniform_n g 0.75 0.95 (length total_connections_column) s2 of
        (reliability, s3) \<Rightarrow> Inr ((slots, reliability), s3)))"

text \<open>
  A small generator to run the simulators on: a linear congruential generator modulo 16
  whose unit sample is \<open>state / 16\<close>; a bounded integer scales the unit sample.
\<close>

definition lcg_next :: "nat \<Rightarrow> nat" where
  "lcg_next s = (5 * s + 3) mod 16"

definition lcg16 :: "nat np_random" where
  "lcg16 = \<lparr> rng_seed = (\<lambda>n. n mod 16),
             rng_random = (\<lambda>s. (real s / 16, lcg_next s)),
             rng_randint = (\<lambda>low high s. (low + (int s * (high - low)) div 16, lcg_next s)),
             rng_normal = (\<lambda>loc scale s. (loc + scale * (real s / 10 - 0.8), lcg_next s)),
             rng_choice = (\<lambda>n p s. if n = 0 then Inl ValueError
                                     else Inr ((s * n) div 16, lcg_next s)) \<rparr>"

text \<open>A normalized station to run the simulators and the scorers on.\<close>

definition example_station :: station where
  "example_station =
     \<lparr> station_id = JNum 1001, name = JStr ''Equator Plaza'', address = JStr [],
       city = JStr ''Bengaluru'', state = JStr [], country = JStr ''India'',
       latitude = 12.9716, longitude = 77.5946, distance_from_search_center = 0,
       total_connections = 1, max_power_kw = 50, charger_category = ''superfast'',
       connection_types = {''Unknown''}, operator = JStr ''Tata Power'',
       is_operational = 1, status = JStr ''Operational'', last_updated = JStr [],
       data_provider = JStr ''OpenChargeMap'' \<rparr>"

section \<open>ModelArtifact\<close>

text \<open>
  The bundle \<^verbatim>\<open>joblib\<close> stores. The regressor and the scaler are scikit-learn objects, not
  code of the repository: the model takes \<^verbatim>\<open>model.predict\<close> and \<^verbatim>\<open>scaler.transform\<close> as
  functions on a whole feature matrix (a list of rows) that may raise. The label encoder
  is its list of classes; \<^verbatim>\<open>transform\<close> gives the position of a label and raises
  \<^verbatim>\<open>ValueError\<close> on a label that was not seen when fitting.
\<close>

record model_package =
  pkg_model :: "npfloat list list \<Rightarrow> py_exception + real list"
  pkg_scaler :: "npfloat list list \<Rightarrow> py_exception + npfloat list list"
  pkg_scaler_mean :: "real list"
  pkg_charger_encoder :: "string list"
  pkg_feature_names :: "string list"

fun index_of :: "'a list \<Rightarrow> 'a \<Rightarrow> nat option" where
  "index_of [] y = None"
| "index_of (x # xs) y = (if x = y then Some 0 else map_option Suc (index_of xs y))"

definition encoder_transform :: "string list \<Rightarrow> string list \<Rightarrow> py_exception + nat list" where
  "encoder_transform classes labels =
     (case those (map (index_of classes) labels) of
        None \<Rightarrow> Inl ValueError
      | Some codes \<Rightarrow> Inr codes)"

text \<open>What \<^verbatim>\<open>joblib.load\<close> finds at the model path.\<close>

datatype artifact_file = Missing | Corrupt | Artifact model_package

text \<open>The preference object: numbers by name. \<^verbatim>\<open>prefs.get(k, default)\<close>.\<close>

type_synonym user_prefs = "string \<rightharpoonup> real"

definition prefs_get :: "user_prefs \<Rightarrow> string \<Rightarrow> real \<Rightarrow> real" where
  "prefs_get prefs k dflt = (case prefs k of Some v \<Rightarrow> v | None \<Rightarrow> dflt)"

section \<open>ScoringEngine, serving script: recommend.py\<close>

text \<open>
  \<^verbatim>\<open>print_error(*args, **kwargs)\<close> calls \<^verbatim>\<open>print(*args, file=sys.stderr, **kwargs)\<close>: a
  caller that passes \<^verbatim>\<open>file=\<close> itself makes \<^verbatim>\<open>print\<close> receive the keyword twice, which
  raises \<^verbatim>\<open>TypeError\<close>.
\<close>

definition print_error :: "bool \<Rightarrow> py_exception + unit" where
  "print_error passes_file_keyword = (if passes_file_keyword then Inl TypeError else Inr ())"

text \<open>load\_model, lines 23-33: both handlers call \<^verbatim>\<open>print_error(..., file=sys.stderr)\<close>.\<close>

definition load_model :: "artifact_file \<Rightarrow> py_exception + model_package option" where
  "load_model file =
     (case file of
        Artifact model_package \<Rightarrow> Inr (Some model_package)
      | Missing \<Rightarrow> ebind (print_error True) (\<lambda>_. Inr None)
      | Corrupt \<Rightarrow> ebind (print_error True) (\<lambda>_. Inr None))"

text \<open>One row of the feature table of predict\_ratings, lines 63-90, columns in order of creation.\<close>

definition serving_feature_row ::
  "string list \<Rightarrow> user_prefs \<Rightarrow> serving_station \<Rightarrow> int \<Rightarrow> real \<Rightarrow> nat
   \<Rightarrow> (string \<times> npfloat) list" where
  "serving_feature_row feature_names user_prefs st slots reliability encoded =
     (let distance_km = sv_distance st;
          n_connections = Fin (of_int (sv_total_connections st));
          price_per_kwh = sv_usage_cost st;
          availability_ratio = serving_availability_ratio (Fin (of_int slots)) n_connections;
          power_efficiency = serving_power_efficiency (sv_max_power_kw st) price_per_kwh
      in [(''distance_km'', distance_km),
          (''available_slots'', Fin (of_int slots)),
          (''total_connections'', n_connections),
          (''max_power_kw'', sv_max_power_kw st),
          (''price_per_kwh'', price_per_kwh),
          (''reliability_score'', Fin reliability),
          (''charger_type_encoded'', Fin (of_nat encoded)),
          (''battery_capacity'', Fin (prefs_get user_prefs ''battery_capacity_kwh'' 45)),
          (''is_price_sensitive'', Fin (prefs_get user_prefs ''is_price_sensitive'' 0)),
          (''distance_category'',
             (case distance_km of Fin d \<Rightarrow> serving_distance_category d | _ \<Rightarrow> NaN)),
          (''availability_ratio'', availability_ratio),
          (''price_per_km'', np_mul price_per_kwh distance_km),
          (''power_efficiency'', power_efficiency),
          (''value_score'', serving_value_score power_efficiency availability_ratio)]
         @ (if ''is_weekend'' \<in> set feature_names \<and> ''hour_of_day'' \<in> set feature_names
            then [(''is_weekend'', Fin 0), (''hour_of_day'', Fin 14)] else []))"

text \<open>\<^verbatim>\<open>features[feature_names]\<close> on one row: \<open>None\<close> stands for the \<^verbatim>\<open>KeyError\<close>.\<close>

definition select_columns :: "string list \<Rightarrow> (string \<times> npfloat) list \<Rightarrow> npfloat list option" where
  "select_columns names row = those (map (map_of row) names)"

record scored_station =
  sc_station :: serving_station
  sc_available_slots :: int
  sc_reliability_score :: real
  predicted_rating :: real

fun add_predicted ::
  "serving_station list \<Rightarrow> int list \<Rightarrow> real list \<Rightarrow> real list \<Rightarrow> scored_station list" where
  "add_predicted (st # sts) (a # as) (r # rs) (p # ps) =
     \<lparr> sc_station = st, sc_available_slots = a, sc_reliability_score = r,
       predicted_rating = py_round (max 1 (min 5 p)) 2 \<rparr> # add_predicted sts as rs ps"
| "add_predicted _ _ _ _ = []"

fun zip_rows ::
  "(serving_station \<Rightarrow> int \<Rightarrow> real \<Rightarrow> nat \<Rightarrow> 'r)
   \<Rightarrow> serving_station list \<Rightarrow> int list \<Rightarrow> real list \<Rightarrow> nat list \<Rightarrow> 'r list" where
  "zip_rows f (st # sts) (a # as) (r # rs) (c # cs) = f st a r c # zip_rows f sts as rs cs"
| "zip_rows f _ _ _ _ = []"

text \<open>
  predict\_ratings, lines 35-111. The result is sorted by descending rating (stations of
  equal rating are kept in their order here; pandas does not promise an order for them).
  A feature name the table lacks ends the call with an empty list (line 96-98); every
  other exception leaves the function.
\<close>

definition predict_ratings ::
  "'s np_random \<Rightarrow> model_package \<Rightarrow> serving_station list \<Rightarrow> user_prefs \<Rightarrow> 's
   \<Rightarrow> py_exception + scored_station list \<times> 's" where
  "predict_ratings g model_package stations_df user_prefs s0 =
     (if stations_df = [] then Inr ([], s0)
      else
      ebind (serving_simulation g (map sv_total_connections stations_df) s0)
        (\<lambda>((slots, reliability), s1).
      ebind (encoder_transform (pkg_charger_encoder model_package)
               (map sv_charger_category stations_df)) (\<lambda>codes.
      (let feature_names = pkg_feature_names model_package;
           features = zip_rows (serving_feature_row feature_names user_prefs)
                        stations_df slots reliability codes
       in case those (map (select_columns feature_names) features) of
            None \<Rightarrow> Inr ([], s1)
          | Some matrix \<Rightarrow>
              ebind (pkg_scaler model_package matrix) (\<lambda>x_scaled.
              ebind (pkg_model model_package x_scaled) (\<lambda>predicted.
              if length predicted \<noteq> length stations_df then Inl ValueError
              else Inr (sort_key (\<lambda>r. - predicted_rating r)
                          (add_predicted stations_df slots reliability predicted), s1)))))))"

text \<open>
  main, lines 113-144: what the process does with its standard input, parsed (or not)
  as a request. It prints a JSON array and returns, or exits with status 1 and nothing on
  standard output.
\<close>

datatype stdin_input = Malformed | Request "serving_station list" user_prefs

datatype process_exit = Printed "scored_station list" | Exit1

definition recommend_main ::
  "'s np_random \<Rightarrow> artifact_file \<Rightarrow> stdin_input \<Rightarrow> 's \<Rightarrow> process_exit" where
  "recommend_main g model_path input s0 =
     (case input of
        Malformed \<Rightarrow> Exit1
      | Request stations user_preferences \<Rightarrow>
          if stations = [] then Printed []
          else (case load_model model_path of
                  Inl e \<Rightarrow> Exit1
                | Inr None \<Rightarrow> Exit1
                | Inr (Some model_package) \<Rightarrow>
                    (case predict_ratings g model_package stations user_preferences s0 of
                       Inl e \<Rightarrow> Exit1
                     | Inr (recommendations, _) \<Rightarrow> Printed recommendations)))"

section \<open>ScoringEngine, tester: modelTest.py\<close>

text \<open>
  load\_trained\_model (trainModel.py, lines 255-278), as load\_model of the tester calls
  it: the trainer holds the bundle afterwards, or nothing when the file is missing or
  cannot be read; \<^verbatim>\<open>model_loaded\<close> is whether it holds one.
\<close>

definition load_trained_model :: "artifact_file \<Rightarrow> model_package option" where
  "load_trained_model file =
     (case file of
        Artifact model_package \<Rightarrow> Some model_package
      | Missing \<Rightarrow> None
      | Corrupt \<Rightarrow> None)"

text \<open>Comparison of a cell with a number: false for NaN.\<close>

fun np_less :: "npfloat \<Rightarrow> real \<Rightarrow> bool" where
  "np_less (Fin a) b = (a < b)"
| "np_less NInf b = True"
| "np_less _ b = False"

text \<open>Line 110: \<^verbatim>\<open>1 if d < 5 else (2 if d < 15 else 3) if not pd.isna(d) else 0\<close>.\<close>

definition tester_distance_category :: "npfloat \<Rightarrow> real" where
  "tester_distance_category distance_km =
     (if np_less distance_km 5 then 1
      else if \<not> isna distance_km then (if np_less distance_km 15 then 2 else 3)
      else 0)"

text \<open>The feature dict of one station, lines 70-129.\<close>

definition tester_feature_data ::
  "string list \<Rightarrow> user_prefs \<Rightarrow> sim_station \<Rightarrow> nat \<Rightarrow> (string \<times> npfloat) list" where
  "tester_feature_data feature_names user_prefs st encoded =
     (let distance_km = Fin (distance_from_search_center st);
          slots = Fin (of_int (available_slots st));
          n_connections = Fin (of_nat (total_connections st));
          kw = Fin (max_power_kw st);
          price_per_kwh = Fin (simulated_price_per_kwh st)
      in [(''distance_km'', distance_km),
          (''distance_category'', Fin (tester_distance_category distance_km)),
          (''available_slots'', slots),
          (''total_connections'', n_connections),
          (''max_power_kw'', kw),
          (''price_per_kwh'', price_per_kwh),
          (''reliability_score'', Fin (reliability_score st)),
          (''charger_type_encoded'', Fin (of_nat encoded)),
          (''battery_capacity'', Fin (prefs_get user_prefs ''battery_capacity'' 45)),
          (''is_price_sensitive'', Fin (prefs_get user_prefs ''is_price_sensitive'' 0)),
          (''availability_ratio'', tester_availability_ratio slots n_connections),
          (''price_per_km'', tester_price_per_km price_per_kwh distance_km),
          (''power_efficiency'', tester_power_efficiency kw price_per_kwh),
          (''value_score'', tester_value_score kw slots n_connections price_per_kwh)]
         @ (if ''is_weekend'' \<in> set feature_names \<and> ''hour_of_day'' \<in> set feature_names
            then [(''is_weekend'', Fin 0), (''hour_of_day'', Fin 12)] else []))"

text \<open>
  Lines 135-147: a column the dict lacks is 0; a NaN is replaced by the scaler's mean of
  its column when the scaler has one mean per feature, by 0 otherwise.
\<close>

definition tester_feature_vector :: "model_package \<Rightarrow> (string \<times> npfloat) list \<Rightarrow> npfloat list" where
  "tester_feature_vector model_package feature_data =
     (let names = pkg_feature_names model_package;
          row = map (\<lambda>col. case map_of feature_data col of Some v \<Rightarrow> v | None \<Rightarrow> Fin 0) names;
          means = pkg_scaler_mean model_package
      in if length means = length names
         then map (\<lambda>(v, m). fillna (Fin m) v) (zip row means)
         else map (fillna (Fin 0)) row)"

text \<open>The body of the \<^verbatim>\<open>try\<close> of lines 68-170, up to the clamped rating.\<close>

definition tester_predict :: "model_package \<Rightarrow> user_prefs \<Rightarrow> sim_station \<Rightarrow> py_exception + real" where
  "tester_predict model_package user_prefs st =
     ebind (encoder_transform (pkg_charger_encoder model_package) [charger_category st])
       (\<lambda>codes.
     case codes of
       [] \<Rightarrow> Inl IndexError
     | encoded # _ \<Rightarrow>
        (let feature_df = tester_feature_vector model_package
               (tester_feature_data (pkg_feature_names model_package) user_prefs st encoded)
         in ebind (pkg_scaler model_package [feature_df]) (\<lambda>scaled.
            ebind (pkg_model model_package scaled) (\<lambda>predicted.
            case predicted of
              [] \<Rightarrow> Inl IndexError
            | rating # _ \<Rightarrow> Inr (max 1 (min 5 rating))))))"

text \<open>
  A recommendation copies the display fields of its station and adds the score
  (\<^verbatim>\<open>predicted_rating\<close> or \<^verbatim>\<open>rule_score\<close>).
\<close>

record recommendation =
  rec_station :: sim_station
  rec_score :: npfloat

text \<open>
  \<^verbatim>\<open>nlargest(3, column)\<close>: the three largest scores in descending order, rows of equal
  score in their order of appearance, rows without a score (NaN) last.
\<close>

fun np_greater :: "npfloat \<Rightarrow> npfloat \<Rightarrow> bool" where
  "np_greater (Fin a) (Fin b) = (a > b)"
| "np_greater NaN _ = False"
| "np_greater _ NaN = True"
| "np_greater PInf PInf = False"
| "np_greater PInf _ = True"
| "np_greater _ PInf = False"
| "np_greater NInf _ = False"
| "np_greater _ NInf = True"

fun insert_desc :: "recommendation \<Rightarrow> recommendation list \<Rightarrow> recommendation list" where
  "insert_desc x [] = [x]"
| "insert_desc x (y # ys) =
     (if np_greater (rec_score y) (rec_score x) then y # insert_desc x ys else x # y # ys)"

definition nlargest :: "nat \<Rightarrow> recommendation list \<Rightarrow> recommendation list" where
  "nlargest n recs = take n (foldr insert_desc recs [])"

text \<open>
  \_get\_ml\_recommendations, lines 60-184: a station whose scoring raises is reported
  and left out; the loop goes on.
\<close>

definition get_ml_recommendations ::
  "model_package \<Rightarrow> user_prefs \<Rightarrow> sim_station list \<Rightarrow> recommendation list" where
  "get_ml_recommendations model_package user_prefs stations_df =
     nlargest 3
       (concat (map (\<lambda>st. case tester_predict model_package user_prefs st of
                             Inl e \<Rightarrow> []
                           | Inr rating \<Rightarrow>
                               [\<lparr> rec_station = st, rec_score = Fin (py_round rating 2) \<rparr>])
                    stations_df))"

text \<open>\_get\_simple\_recommendations, lines 187-230: the rule-based score.\<close>

fun np_add :: "npfloat \<Rightarrow> npfloat \<Rightarrow> npfloat" where
  "np_add (Fin a) (Fin b) = Fin (a + b)"
| "np_add NaN _ = NaN"
| "np_add _ NaN = NaN"
| "np_add PInf NInf = NaN"
| "np_add NInf PInf = NaN"
| "np_add PInf _ = PInf"
| "np_add _ PInf = PInf"
| "np_add NInf _ = NInf"
| "np_add _ NInf = NInf"

definition rule_score :: "user_prefs \<Rightarrow> sim_station \<Rightarrow> npfloat" where
  "rule_score user_prefs st =
     (let price = Fin (simulated_price_per_kwh st);
          score = np_add (np_add (np_add (np_add
                    (np_div (Fin 30) (np_add (Fin (distance_from_search_center st)) (Fin 1)))
                    (Fin (25 * of_int (available_slots st))))
                    (np_div (Fin 20) (np_add price (Fin 1))))
                    (Fin (15 * (max_power_kw st / 50))))
                    (Fin (10 * of_nat (is_operational st)));
          score1 = (if prefs_get user_prefs ''is_price_sensitive'' 0 \<noteq> 0
                    then np_add score (np_div (Fin 15) (np_add price (Fin 1))) else score)
      in if prefs_get user_prefs ''battery_capacity'' 40 > 50
         then np_add score1
                (Fin (if charger_category st \<in> {''fast'', ''superfast''} then 10 else 0))
         else score1)"

definition get_simple_recommendations ::
  "user_prefs \<Rightarrow> sim_station list \<Rightarrow> recommendation list" where
  "get_simple_recommendations user_prefs stations_df =
     map (\<lambda>r. r \<lparr> rec_score := (case rec_score r of Fin x \<Rightarrow> Fin (py_round x 2) | v \<Rightarrow> v) \<rparr>)
       (nlargest 3 (map (\<lambda>st. \<lparr> rec_station = st, rec_score = rule_score user_prefs st \<rparr>)
                     stations_df))"

text \<open>
  test\_recommendations\_for\_location, lines 29-58, from the stations fetched around the
  location on: \<open>None\<close> when there are none, else the recommendations of the mode that
  \<^verbatim>\<open>model_loaded\<close> selects.
\<close>

definition test_recommendations_for_location ::
  "model_package option \<Rightarrow> user_prefs \<Rightarrow> sim_station list \<Rightarrow> recommendation list option" where
  "test_recommendations_for_location trainer user_prefs nearby_stations =
     (if nearby_stations = [] then None
      else (case trainer of
              Some model_package \<Rightarrow>
                Some (get_ml_recommendations model_package user_prefs nearby_stations)
            | None \<Rightarrow> Some (get_simple_recommendations user_prefs nearby_stations)))"

text \<open>
  A bundle to run the scorers on: the fourteen-column schema (no time features),
  an identity scaler, the three charger classes, and a regressor that, like
  scikit-learn's, rejects a matrix with a NaN or an infinity and otherwise rates a row by
  its battery capacity (column 8), its distance (column 0) and its price sensitivity
  (column 9).
\<close>

fun fin_value :: "npfloat \<Rightarrow> real" where
  "fin_value (Fin x) = x"
| "fin_value _ = 0"

definition training_feature_names :: "string list" where
  "training_feature_names =
     [''distance_km'', ''distance_category'', ''available_slots'', ''total_connections'',
      ''max_power_kw'', ''price_per_kwh'', ''reliability_score'', ''charger_type_encoded'',
      ''battery_capacity'', ''is_price_sensitive'', ''availability_ratio'', ''price_per_km'',
      ''power_efficiency'', ''value_score'']"

definition example_package :: model_package where
  "example_package =
     \<lparr> pkg_model = (\<lambda>rows. if list_all (list_all is_finite) rows
                             then Inr (map (\<lambda>row. 3 + fin_value (row ! 8) / 100
                                                      - fin_value (row ! 0) / 10
                                                      + fin_value (row ! 9) / 2) rows)
                             else Inl ValueError),
       pkg_scaler = (\<lambda>rows. Inr rows),
       pkg_scaler_mean = replicate 14 0,
       pkg_charger_encoder = [''fast'', ''slow'', ''superfast''],
       pkg_feature_names = training_feature_names \<rparr>"

definition example_serving_station :: "real \<Rightarrow> string \<Rightarrow> serving_station" where
  "example_serving_station d category =
     \<lparr> sv_distance = Fin d, sv_total_connections = 1, sv_max_power_kw = Fin 50,
       sv_usage_cost = Fin 12, sv_charger_category = category,
       sv_other_fields = [(''name'', JStr ''Equator Plaza'')] \<rparr>"

section \<open>InteractionSimulator: dataCollector.py, bookings\<close>

record sim_user =
  user_id :: nat
  base_city :: json
  home_latitude :: real
  home_longitude :: real
  ev_model :: string
  battery_capacity_kwh :: real
  is_price_sensitive :: nat
  preferred_charger_speed :: string
  charging_frequency :: string

text \<open>
  A booking. \<^verbatim>\<open>booking_id\<close> is the triple its string is formatted from; the date is kept
  as the number of days before the day of the run.
\<close>

record booking =
  booking_id :: "nat \<times> nat \<times> json"
  bk_user_id :: nat
  bk_station_id :: json
  booking_days_ago :: int
  bk_distance_km :: real
  available_slots_at_booking :: int
  price_paid_per_kwh :: real
  charger_type :: string
  bk_max_power_kw :: real
  bk_total_connections :: nat
  user_rating :: real
  booking_completed :: nat
  wait_time_minutes :: int

text \<open>\<^verbatim>\<open>word in x\<close>: a substring of a string, an element of a list, a key of a dict.\<close>

fun py_in :: "string \<Rightarrow> json \<Rightarrow> py_exception + bool" where
  "py_in w (JStr s) = Inr (is_substring w s)"
| "py_in w (JArr xs) = Inr (JStr w \<in> set xs)"
| "py_in w (JObj kv) = Inr (w \<in> set (map fst kv))"
| "py_in w _ = Inl TypeError"

text \<open>
  \_calculate\_user\_rating, lines 586-623; \<open>distance_km\<close> is the station's
  \<^verbatim>\<open>distance_to_user\<close>. The second test of the operator is only made when the first is
  false.
\<close>

definition calculate_user_rating ::
  "'s np_random \<Rightarrow> sim_user \<Rightarrow> sim_station \<Rightarrow> real \<Rightarrow> int \<Rightarrow> real \<Rightarrow> 's
   \<Rightarrow> py_exception + real \<times> 's" where
  "calculate_user_rating g user st distance_km slots price s =
     (let base_rating = 3.0;
          base_rating1 = (if distance_km < 3 then base_rating + 1.0
                          else if distance_km < 8 then base_rating + 0.5
                          else if distance_km > 20 then base_rating - 0.7
                          else base_rating);
          base_rating2 = (if slots = 0 then base_rating1 - 1.5
                          else if slots \<ge> 3 then base_rating1 + 0.6
                          else if slots = 1 then base_rating1 - 0.2
                          else base_rating1);
          base_rating3 = (if is_price_sensitive user \<noteq> 0
                          then (if price < 8 then base_rating2 + 0.5
                                else if price > 13 then base_rating2 - 0.6
                                else base_rating2)
                          else base_rating2)
      in ebind (py_in ''Tata'' (operator st)) (\<lambda>tata.
         ebind (if tata then Inr True else py_in ''Ather'' (operator st)) (\<lambda>premium.
         (let base_rating4 = (if premium then base_rating3 + 0.2 else base_rating3)
          in case rng_normal g 0 0.4 s of
               (noise, s') \<Rightarrow>
                 (let final_rating = base_rating4 + noise
                  in Inr (py_round (max 1.0 (min 5.0 final_rating)) 1, s'))))))"

text \<open>
  \_select\_station\_realistically, lines 551-584, on the accessible stations with their
  distances to the user. The weights are float cells: \<^verbatim>\<open>Series.sum\<close> skips NaN, and
  \<^verbatim>\<open>np.random.choice\<close> rejects weights that are not finite numbers.
\<close>

definition selection_prob :: "sim_user \<Rightarrow> sim_station \<times> real \<Rightarrow> npfloat" where
  "selection_prob user row =
     (case row of (st, distance_to_user) \<Rightarrow>
      (let prob = np_div (Fin 1) (np_add (Fin 1) (np_div (Fin distance_to_user) (Fin 5)));
           prob1 = (if is_price_sensitive user \<noteq> 0
                    then np_mul prob
                           (np_div (Fin 15) (np_add (Fin (simulated_price_per_kwh st)) (Fin 1)))
                    else prob);
           prob2 = (if preferred_charger_speed user \<noteq> ''any''
                    then np_mul prob1
                           (Fin (1 + (if charger_category st = preferred_charger_speed user
                                      then 1 else 0) * 0.5))
                    else prob1)
       in if battery_capacity_kwh user > 50
          then np_mul prob2
                 (Fin (1 + (if charger_category st \<in> {''fast'', ''superfast''}
                            then 1 else 0) * 0.3))
          else prob2))"

fun finite_cells :: "npfloat list \<Rightarrow> real list option" where
  "finite_cells [] = Some []"
| "finite_cells (Fin x # cs) = map_option ((#) x) (finite_cells cs)"
| "finite_cells (_ # cs) = None"

definition iloc :: "'a list \<Rightarrow> nat \<Rightarrow> py_exception + 'a" where
  "iloc rows i = (if i < length rows then Inr (rows ! i) else Inl IndexError)"

definition select_station_realistically ::
  "'s np_random \<Rightarrow> sim_user \<Rightarrow> (sim_station \<times> real) list \<Rightarrow> 's
   \<Rightarrow> py_exception + (sim_station \<times> real) option \<times> 's" where
  "select_station_realistically g user stations_df s =
     (if length stations_df = 0 then Inr (None, s)
      else
      (let probs = map (selection_prob user) stations_df;
           total_prob = foldl np_add (Fin 0) (filter (\<lambda>p. \<not> isna p) probs)
       in if total_prob = Fin 0
          then ebind (rng_choice g (length stations_df) None s) (\<lambda>(i, s').
               ebind (iloc stations_df i) (\<lambda>row. Inr (Some row, s')))
          else (case finite_cells (map (\<lambda>p. np_div p total_prob) probs) of
                  None \<Rightarrow> Inl ValueError
                | Some normalized \<Rightarrow>
                    ebind (rng_choice g (length stations_df) (Some normalized) s) (\<lambda>(i, s').
                    ebind (iloc stations_df i) (\<lambda>row. Inr (Some row, s'))))))"

text \<open>One pass of the loop of lines 516-547: no booking when no station was selected.\<close>

definition simulate_booking ::
  "'s np_random \<Rightarrow> sim_user \<Rightarrow> (sim_station \<times> real) list \<Rightarrow> nat \<Rightarrow> 's
   \<Rightarrow> py_exception + booking option \<times> 's" where
  "simulate_booking g user accessible_stations booking_num s =
     ebind (select_station_realistically g user accessible_stations s) (\<lambda>(selected, s1).
     case selected of
       None \<Rightarrow> Inr (None, s1)
     | Some (st, distance_to_user) \<Rightarrow>
        (case rng_randint g 1 180 s1 of (days, s2) \<Rightarrow>
         case rng_randint g 0 (int (total_connections st) + 1) s2 of (slots, s3) \<Rightarrow>
         (let current_price = simulated_price_per_kwh st
          in ebind (calculate_user_rating g user st distance_to_user slots current_price s3)
               (\<lambda>(rating, s4).
             Inr (Some \<lparr> booking_id = (user_id user, booking_num, station_id st),
                          bk_user_id = user_id user,
                          bk_station_id = station_id st,
                          booking_days_ago = days,
                          bk_distance_km = py_round distance_to_user 2,
                          available_slots_at_booking = slots,
                          price_paid_per_kwh = current_price,
                          charger_type = charger_category st,
                          bk_max_power_kw = max_power_kw st,
                          bk_total_connections = total_connections st,
                          user_rating = rating,
                          booking_completed = (if slots > 0 then 1 else 0),
                          wait_time_minutes =
                            (if slots > 0 then simulated_avg_wait_minutes st else 0) \<rparr>,
                  s4)))))"

fun booking_loop ::
  "'s np_random \<Rightarrow> sim_user \<Rightarrow> (sim_station \<times> real) list \<Rightarrow> nat list \<Rightarrow> 's
   \<Rightarrow> py_exception + booking list \<times> 's" where
  "booking_loop g user accessible_stations [] s = Inr ([], s)"
| "booking_loop g user accessible_stations (booking_num # nums) s =
     ebind (simulate_booking g user accessible_stations booking_num s) (\<lambda>(made, s1).
     ebind (booking_loop g user accessible_stations nums s1) (\<lambda>(bookings, s2).
     Inr ((case made of None \<Rightarrow> bookings | Some b \<Rightarrow> b # bookings), s2)))"

text \<open>\_simulate\_user\_bookings, lines 492-549.\<close>

definition simulate_user_bookings ::
  "'s np_random \<Rightarrow> sim_user \<Rightarrow> sim_station list \<Rightarrow> nat \<Rightarrow> 's
   \<Rightarrow> py_exception + booking list \<times> 's" where
  "simulate_user_bookings g user stations_df n_bookings s =
     (let stations_with_distance =
            map (\<lambda>row. (row, calculate_distance (home_latitude user) (home_longitude user)
                                 (latitude row) (longitude row))) stations_df;
          accessible_stations = filter (\<lambda>(row, d). d < 50) stations_with_distance
      in if length accessible_stations = 0 then Inr ([], s)
         else booking_loop g user accessible_stations [0..<n_bookings] s)"

text \<open>A user and a simulated station for the runs below.\<close>

definition example_user :: sim_user where
  "example_user =
     \<lparr> user_id = 1, base_city = JStr ''Bengaluru'', home_latitude = 12.9716,
       home_longitude = 77.5946, ev_model = ''Tata Nexon EV'', battery_capacity_kwh = 72,
       is_price_sensitive = 1, preferred_charger_speed = ''superfast'',
       charging_frequency = ''weekly'' \<rparr>"

definition example_sim_station :: sim_station where
  "example_sim_station =
     station.extend example_station
       \<lparr> available_slots = 1, simulated_price_per_kwh = 11.88,
         simulated_avg_wait_minutes = 35, reliability_score = 0.97 \<rparr>"

section \<open>ScoringEngine, single-pair path: trainModel.py and api.py\<close>

text \<open>
  The two JSON objects of a \<^verbatim>\<open>/predict\<close> request, every field a number but the charger
  type; \<^verbatim>\<open>reliability_score\<close> may be left out. The caller supplies \<^verbatim>\<open>price_per_km\<close>,
  \<^verbatim>\<open>power_efficiency\<close> and \<^verbatim>\<open>value_score\<close>; the availability ratio is computed here.
\<close>

record station_features =
  sf_distance_km :: real
  sf_available_slots :: real
  sf_total_connections :: real
  sf_max_power_kw :: real
  sf_price_per_kwh :: real
  sf_reliability_score :: "real option"
  sf_charger_type :: string
  sf_price_per_km :: real
  sf_power_efficiency :: real
  sf_value_score :: real

record user_features =
  uf_battery_capacity :: real
  uf_is_price_sensitive :: real

text \<open>Python's \<^verbatim>\<open>/\<close> on two numbers.\<close>

definition py_truediv :: "real \<Rightarrow> real \<Rightarrow> py_exception + real" where
  "py_truediv a b = (if b = 0 then Inl ZeroDivisionError else Inr (a / b))"

text \<open>
  predict\_station\_rating, lines 280-314. The trainer holds a bundle when
  \<^verbatim>\<open>is_trained\<close>; the elements of the feature vector are evaluated in order, so the
  encoder is asked before the ratio is computed.
\<close>

definition predict_station_rating ::
  "model_package option \<Rightarrow> user_features \<Rightarrow> station_features \<Rightarrow> py_exception + real" where
  "predict_station_rating trainer user st =
     (case trainer of
        None \<Rightarrow> Inl NotTrained
      | Some model_package \<Rightarrow>
         ebind (encoder_transform (pkg_charger_encoder model_package) [sf_charger_type st])
           (\<lambda>codes.
         ebind (iloc codes 0) (\<lambda>encoded.
         ebind (py_truediv (sf_available_slots st) (sf_total_connections st))
           (\<lambda>availability_ratio.
         (let feature_vector =
                map Fin
                  [sf_distance_km st,
                   single_pair_distance_category (sf_distance_km st),
                   sf_available_slots st,
                   sf_total_connections st,
                   sf_max_power_kw st,
                   sf_price_per_kwh st,
                   (case sf_reliability_score st of None \<Rightarrow> 0.8 | Some r \<Rightarrow> r),
                   of_nat encoded,
                   uf_battery_capacity user,
                   uf_is_price_sensitive user,
                   availability_ratio,
                   sf_price_per_km st,
                   sf_power_efficiency st,
                   sf_value_score st];
              with_time = (if length (pkg_feature_names model_package) > 14
                           then feature_vector @ [Fin 0, Fin 12] else feature_vector)
          in ebind (pkg_scaler model_package [with_time]) (\<lambda>scaled.
             ebind (pkg_model model_package scaled) (\<lambda>predicted.
             ebind (iloc predicted 0) (\<lambda>rating.
             Inr (max 1.0 (min 5.0 rating))))))))))"

text \<open>
  api.py, predict\_rating, lines 52-73: status 400 when the model is not trained, 200 with
  the rating, or 500 with the message of whatever the prediction raised.
\<close>

datatype http_response = Http200 real | Http400 | Http500 py_exception

definition predict_rating :: "model_package option \<Rightarrow> user_features \<Rightarrow> station_features \<Rightarrow> http_response" where
  "predict_rating trainer user st =
     (case trainer of
        None \<Rightarrow> Http400
      | Some _ \<Rightarrow>
         (case predict_station_rating trainer user st of
            Inl e \<Rightarrow> Http500 e
          | Inr rating \<Rightarrow> Http200 rating))"

text \<open>A request about a station that reports no connection at all, and one with two.\<close>

definition example_station_features :: "real \<Rightarrow> real \<Rightarrow> station_features" where
  "example_station_features slots connections =
     \<lparr> sf_distance_km = 2, sf_available_slots = slots, sf_total_connections = connections,
       sf_max_power_kw = 50, sf_price_per_kwh = 12, sf_reliability_score = None,
       sf_charger_type = ''superfast'', sf_price_per_km = 24, sf_power_efficiency = 25 / 6,
       sf_value_score = 0 \<rparr>"

definition example_user_features :: user_features where
  "example_user_features = \<lparr> uf_battery_capacity = 45, uf_is_price_sensitive = 0 \<rparr>"

section \<open>Results\<close>

text \<open>
  C1 (fails on the code). The claim: for every distance the bucket label of the training
  feature preparation equals the label of the serving-time preparation and of the
  single-pair prediction path. At a distance of 3 km training assigns label 0 while
  serving and the single-pair path assign label 1; at exactly 5 km serving assigns 1 and
  the single-pair path assigns 2.
\<close>

theorem distance_category_diverges:
  "training_distance_category 3 = Fin 0
   \<and> serving_distance_category 3 = Fin 1
   \<and> single_pair_distance_category 3 = 1
   \<and> serving_distance_category 5 = Fin 1
   \<and> single_pair_distance_category 5 = 2"
  by (simp add: training_distance_category_def serving_distance_category_def
      single_pair_distance_category_def pd_cut_def astype_float_def)

subsection \<open>StationNormalizer\<close>

lemma station_fields_category:
  "station_fields clat clng raw addr_info lat lng = Inr s \<Longrightarrow>
   charger_category s = classify_charger (max_power_kw s)"
  by (auto simp: station_fields_def ebind_def Let_def split: sum.splits prod.splits)

lemma collect_processed_iff:
  "s \<in> set (collect_processed clat clng raws) \<longleftrightarrow>
   (\<exists>raw \<in> set raws. process_raw_station clat clng raw = Normalized s)"
  by (force simp: collect_processed_def split: item_result.splits)

text \<open>
  The loop body leaves at \<^verbatim>\<open>continue\<close> exactly when \<^verbatim>\<open>AddressInfo\<close> is a dict and
  the latitude or the longitude is false as a truth value: absent, null, or zero.
\<close>

lemma skipped_iff:
  "process_raw_station clat clng raw = Skipped \<longleftrightarrow>
   (\<exists>d. dict_get raw ''AddressInfo'' (JObj []) = JObj d \<and>
     (\<not> truthy (dict_get d ''Latitude'' JNull) \<or> \<not> truthy (dict_get d ''Longitude'' JNull)))"
  by (cases "dict_get raw ''AddressInfo'' (JObj [])")
     (auto simp: process_raw_station_def Let_def split: sum.splits)

text \<open>
  C6 (fails on the code). The claim: the normalizer skips a record exactly when its
  latitude or longitude is absent, and normalizes every record that carries both. The
  test of line 150 is \<^verbatim>\<open>if not lat or not lng\<close>, which is also true of the number 0:
  a record on the equator, with both coordinates present, is skipped, while the same
  record half a degree further north is normalized.
\<close>

theorem normalizer_skips_zero_latitude:
  "process_raw_station 12.9716 77.5946 (example_raw_station 0) = Skipped
   \<and> (\<exists>s. process_raw_station 12.9716 77.5946 (example_raw_station 0.5) = Normalized s)"
  by (simp add: process_raw_station_def example_raw_station_def dict_get_def
      station_fields_def ebind_def join_connection_types_def)

theorem normalizer_skips_zero_latitude_witness:
  "process_raw_station 12.9716 77.5946 (example_raw_station 0) = Skipped"
  using normalizer_skips_zero_latitude by simp

text \<open>
  C7. For every normalized station the charger category is the classification of its
  \<open>max_power_kw\<close> by the thresholds 22 and 50: 49.9 kW is fast, 50.0 kW superfast,
  21.9 kW slow and 22.0 kW fast.
\<close>

theorem charger_category_of_max_power:
  assumes "process_raw_station clat clng raw = Normalized s"
  shows "charger_category s = classify_charger (max_power_kw s)
         \<and> classify_charger 49.9 = ''fast'' \<and> classify_charger 50.0 = ''superfast''
         \<and> classify_charger 21.9 = ''slow'' \<and> classify_charger 22.0 = ''fast''"
proof -
  from assms have "charger_category s = classify_charger (max_power_kw s)"
    by (auto simp: process_raw_station_def Let_def split: sum.splits if_splits
        dest: station_fields_category)
  then show ?thesis by (simp add: classify_charger_def)
qed

theorem charger_category_of_max_power_witness:
  "\<exists>s. process_raw_station 12.9716 77.5946 (example_raw_station 0.5) = Normalized s
       \<and> max_power_kw s = 50 \<and> charger_category s = ''superfast''"
proof -
  obtain s where s: "process_raw_station 12.9716 77.5946 (example_raw_station 0.5) = Normalized s"
    and p: "max_power_kw s = 50"
    by (simp add: process_raw_station_def example_raw_station_def dict_get_def
        station_fields_def ebind_def join_connection_types_def)
  from charger_category_of_max_power [OF s] p have "charger_category s = ''superfast''"
    by simp
  with s p show ?thesis by blast
qed

subsection \<open>Engineered features\<close>

text \<open>
  The two inference paths guard the degenerate operands: with a finite power, between 0
  and \<open>n_total\<close> free slots, \<open>n_total \<ge> 0\<close> and \<open>price \<ge> 0\<close>, their three features are
  finite, and 0 where \<open>n_total = 0\<close> or \<open>price = 0\<close> makes the quotient undefined.
\<close>

lemma serving_features_finite:
  assumes "0 \<le> slots" "slots \<le> n_total" "0 \<le> price"
  shows "is_finite (serving_availability_ratio (Fin slots) (Fin n_total))"
    and "is_finite (serving_power_efficiency (Fin kw) (Fin price))"
    and "is_finite (serving_value_score (serving_power_efficiency (Fin kw) (Fin price))
            (serving_availability_ratio (Fin slots) (Fin n_total)))"
    and "n_total = 0 \<Longrightarrow> serving_availability_ratio (Fin slots) (Fin n_total) = Fin 0"
    and "price = 0 \<Longrightarrow> serving_power_efficiency (Fin kw) (Fin price) = Fin 0"
    and "n_total = 0 \<or> price = 0 \<Longrightarrow>
           serving_value_score (serving_power_efficiency (Fin kw) (Fin price))
            (serving_availability_ratio (Fin slots) (Fin n_total)) = Fin 0"
  using assms
  by (auto simp: serving_availability_ratio_def serving_power_efficiency_def
      serving_value_score_def fillna_def)

lemma tester_features_finite:
  shows "is_finite (tester_availability_ratio (Fin slots) (Fin n_total))"
    and "is_finite (tester_power_efficiency (Fin kw) (Fin price))"
    and "is_finite (tester_value_score (Fin kw) (Fin slots) (Fin n_total) (Fin price))"
    and "tester_availability_ratio (Fin slots) (Fin 0) = Fin 0"
    and "tester_power_efficiency (Fin kw) (Fin 0) = Fin 0"
    and "n_total = 0 \<or> price = 0 \<Longrightarrow>
           tester_value_score (Fin kw) (Fin slots) (Fin n_total) (Fin price) = Fin 0"
  by (auto simp: tester_availability_ratio_def tester_power_efficiency_def
      tester_value_score_def)

text \<open>
  The training feature preparation divides without any guard: on a row with 0 of 0
  connections free and a price of 0 it would give NaN, infinity and NaN. (The rows that
  the data collector writes have at least one connection and a price of at least 6.)
\<close>

lemma training_features_unguarded:
  "training_availability_ratio (Fin 0) (Fin 0) = NaN
   \<and> training_power_efficiency (Fin 50) (Fin 0) = PInf
   \<and> training_value_score (Fin 50) (Fin 0) (Fin 0) (Fin 0) = NaN
   \<and> serving_availability_ratio (Fin 0) (Fin 0) = Fin 0
   \<and> serving_power_efficiency (Fin 50) (Fin 0) = Fin 0
   \<and> tester_availability_ratio (Fin 0) (Fin 0) = Fin 0
   \<and> tester_power_efficiency (Fin 50) (Fin 0) = Fin 0
   \<and> tester_value_score (Fin 50) (Fin 0) (Fin 0) (Fin 0) = Fin 0"
  by (simp add: training_availability_ratio_def training_power_efficiency_def
      training_value_score_def serving_availability_ratio_def serving_power_efficiency_def
      tester_availability_ratio_def tester_power_efficiency_def tester_value_score_def
      fillna_def)

lemma index_of_seen: "y \<in> set classes \<Longrightarrow> \<exists>i. index_of classes y = Some i"
  by (induction classes) auto

text \<open>
  The single-pair path divides two Python numbers: whatever the bundle, a station of a
  known charger type that reports 0 connections makes predict\_station\_rating raise
  \<^verbatim>\<open>ZeroDivisionError\<close>.
\<close>

lemma predict_station_rating_zero_connections:
  assumes "sf_total_connections st = 0"
    and "sf_charger_type st \<in> set (pkg_charger_encoder pkg)"
  shows "predict_station_rating (Some pkg) user st = Inl ZeroDivisionError"
proof -
  from index_of_seen [OF assms(2)] obtain i
    where "index_of (pkg_charger_encoder pkg) (sf_charger_type st) = Some i" by blast
  then show ?thesis using assms(1)
    by (simp add: predict_station_rating_def encoder_transform_def ebind_def iloc_def
        py_truediv_def)
qed

text \<open>
  C3 (fails on the code). The claim: for every station with \<open>total_connections \<ge> 0\<close> and
  \<open>price \<ge> 0\<close> the engineered features are finite, and 0 in the degenerate cases
  rather than an exception. A \<^verbatim>\<open>/predict\<close> request about a station with 0 of 0
  connections free makes predict\_station\_rating raise \<^verbatim>\<open>ZeroDivisionError\<close> while it
  computes the availability ratio, and the endpoint answers with status 500; the same
  request with 1 of 2 connections free is rated 3.25, and the serving script and the
  tester both give the ratio 0 on the degenerate operands.
\<close>

theorem single_pair_availability_ratio_raises:
  "predict_station_rating (Some example_package) example_user_features
     (example_station_features 0 0) = Inl ZeroDivisionError
   \<and> predict_rating (Some example_package) example_user_features
     (example_station_features 0 0) = Http500 ZeroDivisionError
   \<and> predict_rating (Some example_package) example_user_features
     (example_station_features 1 2) = Http200 3.25
   \<and> serving_availability_ratio (Fin 0) (Fin 0) = Fin 0
   \<and> tester_availability_ratio (Fin 0) (Fin 0) = Fin 0"
  by (simp add: predict_station_rating_def predict_rating_def example_package_def
      example_user_features_def example_station_features_def encoder_transform_def
      ebind_def iloc_def py_truediv_def training_feature_names_def
      single_pair_distance_category_def serving_availability_ratio_def
      tester_availability_ratio_def fillna_def)

subsection \<open>Simulated real-time data\<close>

lemma length_draw_each:
  "draw_each f xs s = (ys, s') \<Longrightarrow> length ys = length xs"
  by (induction xs arbitrary: s ys s') (auto split: prod.splits)

lemma add_columns_slots:
  "length slots = length df \<Longrightarrow> length ps = length df \<Longrightarrow> length ws = length df \<Longrightarrow>
   length rs = length df \<Longrightarrow> map available_slots (add_columns df slots ps ws rs) = slots"
proof (induction df arbitrary: slots ps ws rs)
  case Nil
  then show ?case by simp
next
  case (Cons st df)
  then obtain a as p ps' w ws' r rs' where
    "slots = a # as" "ps = p # ps'" "ws = w # ws'" "rs = r # rs'"
    by (metis length_Suc_conv)
  with Cons show ?case by (simp add: station.extend_def)
qed

text \<open>
  The \<^verbatim>\<open>available_slots\<close> column of either simulator is the first vector of draws after
  the seed.
\<close>

lemma training_slots:
  "map_sum id (\<lambda>(df', _). map available_slots df') (add_simulated_realtime_data g df s0)
   = map_sum id (\<lambda>(slots, _). slots)
       (np_randint_each g 0 (map (\<lambda>row. int (total_connections row) + 1) df) (rng_seed g 42))"
proof (cases "np_randint_each g 0 (map (\<lambda>row. int (total_connections row) + 1) df) (rng_seed g 42)")
  case (Inl e)
  then show ?thesis by (simp add: add_simulated_realtime_data_def ebind_def)
next
  case (Inr r)
  obtain slots s2 where r: "r = (slots, s2)" by (cases r)
  from Inr r have "draw_each (rng_randint g 0)
      (map (\<lambda>row. int (total_connections row) + 1) df) (rng_seed g 42) = (slots, s2)"
    by (auto simp: np_randint_each_def split: if_splits)
  then have l1: "length slots = length df" by (auto dest: length_draw_each)
  obtain prices s3 where p: "draw_each (draw_price g) df s2 = (prices, s3)" by force
  obtain waits s4 where w: "np_randint_n g 5 45 (length df) s3 = (waits, s4)" by force
  obtain major s5 where a: "np_uniform_n g 0.85 0.98 (length df) s4 = (major, s5)" by force
  obtain minor s6 where b: "np_uniform_n g 0.65 0.85 (length df) s5 = (minor, s6)" by force
  have l2: "length prices = length df" using p by (auto dest: length_draw_each)
  have l3: "length waits = length df"
    using w by (auto simp: np_randint_n_def dest: length_draw_each)
  have l4: "length major = length df"
    using a by (auto simp: np_uniform_n_def dest: length_draw_each)
  have l5: "length minor = length df"
    using b by (auto simp: np_uniform_n_def dest: length_draw_each)
  show ?thesis
    using Inr r p w a b l1 l2 l3 l4 l5
    by (simp add: add_simulated_realtime_data_def ebind_def add_columns_slots)
qed

lemma serving_slots:
  "map_sum id (\<lambda>((slots, _), _). slots) (serving_simulation g col s1)
   = map_sum id (\<lambda>(slots, _). slots)
       (np_randint_each g 0 (map (\<lambda>t. t + 1) col) (rng_seed g 42))"
  by (cases "np_randint_each g 0 (map (\<lambda>t. t + 1) col) (rng_seed g 42)")
     (auto simp: serving_simulation_def ebind_def split: prod.splits)

lemma tata_power_is_major: "str_contains_any major_operators (JStr ''Tata Power'')"
  by (simp add: str_contains_any_def major_operators_def lower_char_def)

text \<open>
  C2 (fails on the code as stated). The claim: with the seed 42 set before each batch of
  draws the simulators are deterministic, and the training-side and the serving-side
  simulation give identical synthetic fields for the same station set. On the generator
  \<open>lcg16\<close> and the one-station table \<open>[example_station]\<close> the training side gives the
  reliability 0.97 (the band of a major operator, drawn after the prices and the waiting
  times, rounded to 2 decimals) and the serving side 0.8125 (one band 0.75-0.95, drawn
  right after the slots, not rounded).
\<close>

theorem simulated_reliability_differs:
  "map_sum id (\<lambda>(df', _). map reliability_score df')
     (add_simulated_realtime_data lcg16 [example_station] 0) = Inr [0.97]
   \<and> map_sum id (\<lambda>((_, reliability), _). reliability)
     (serving_simulation lcg16 [int (total_connections example_station)] 0) = Inr [0.8125]"
  by (simp add: add_simulated_realtime_data_def serving_simulation_def example_station_def
      lcg16_def np_randint_each_def ebind_def draw_price_def base_prices_def np_uniform_def
      np_uniform_n_def np_randint_n_def lcg_next_def py_round_def rint_def
      tata_power_is_major station.extend_def)

text \<open>
  C2, amended. Each simulator seeds the generator before it draws, so its result does not
  depend on the state the generator was in: for every generator, station table and pair
  of incoming states the results are equal. The two simulators agree on
  \<^verbatim>\<open>available_slots\<close> for the same column of \<^verbatim>\<open>total_connections\<close>.
\<close>

theorem simulation_seeded:
  "add_simulated_realtime_data g df s0 = add_simulated_realtime_data g df s1
   \<and> serving_simulation g col s0 = serving_simulation g col s1
   \<and> map_sum id (\<lambda>(df', _). map available_slots df') (add_simulated_realtime_data g df s0)
     = map_sum id (\<lambda>((slots, _), _). slots)
         (serving_simulation g (map (\<lambda>row. int (total_connections row)) df) s1)"
  unfolding training_slots serving_slots
  by (simp add: add_simulated_realtime_data_def serving_simulation_def comp_def)

subsection \<open>ScoringEngine\<close>

lemmas serving_eval =
  predict_ratings_def serving_simulation_def lcg16_def np_randint_each_def ebind_def
  np_uniform_def np_uniform_n_def lcg_next_def py_round_def rint_def example_package_def
  example_serving_station_def encoder_transform_def serving_feature_row_def
  select_columns_def training_feature_names_def prefs_get_def
  serving_availability_ratio_def serving_power_efficiency_def serving_value_score_def
  fillna_def serving_distance_category_def pd_cut_def astype_float_def Let_def

lemma index_of_unseen: "y \<notin> set classes \<Longrightarrow> index_of classes y = None"
  by (induction classes) auto

lemma those_None: "None \<in> set xs \<Longrightarrow> those xs = None"
  by (induction xs) (auto split: option.splits)

text \<open>
  The serving script encodes the whole column of charger categories at once: one station
  of an unseen category makes predict\_ratings raise \<^verbatim>\<open>ValueError\<close> for the whole list.
\<close>

lemma predict_ratings_unseen_category:
  assumes "st \<in> set stations" "sv_charger_category st \<notin> set (pkg_charger_encoder pkg)"
  shows "predict_ratings g pkg stations prefs s = Inl ValueError"
proof -
  from assms
  have "None \<in> set (map (index_of (pkg_charger_encoder pkg)) (map sv_charger_category stations))"
    using index_of_unseen by force
  then have "encoder_transform (pkg_charger_encoder pkg) (map sv_charger_category stations)
             = Inl ValueError"
    by (simp add: encoder_transform_def those_None)
  moreover have "stations \<noteq> []" using assms by auto
  ultimately show ?thesis
    by (cases "np_randint_each g 0 (map (\<lambda>t. t + 1) (map sv_total_connections stations))
                 (rng_seed g 42)")
       (auto simp: predict_ratings_def serving_simulation_def ebind_def np_randint_each_def
          split: prod.splits if_splits)
qed

text \<open>
  The tester scores station by station inside a \<^verbatim>\<open>try\<close>: a station of an unseen
  category fails alone, and the recommendations are those of the list without it.
\<close>

lemma tester_predict_unseen_category:
  "charger_category st \<notin> set (pkg_charger_encoder pkg) \<Longrightarrow>
   tester_predict pkg prefs st = Inl ValueError"
  by (simp add: tester_predict_def encoder_transform_def index_of_unseen ebind_def)

lemma ml_recommendations_drop_failed:
  "tester_predict pkg prefs bad = Inl e \<Longrightarrow>
   get_ml_recommendations pkg prefs (xs @ bad # ys) = get_ml_recommendations pkg prefs (xs @ ys)"
  by (simp add: get_ml_recommendations_def)

text \<open>
  C5 (fails on the code). The claim: in model-scoring mode one bad station is dropped and the
  valid stations are still scored and returned. In the serving script a list of a station
  of the unseen category \<^verbatim>\<open>ultra\<close> and a valid fast station raises \<^verbatim>\<open>ValueError\<close>, and
  the process exits with status 1 and prints nothing; the valid station alone is rated
  3.05.
\<close>

theorem serving_batch_aborts_on_unseen_category:
  "predict_ratings lcg16 example_package
     [example_serving_station 2 ''ultra'', example_serving_station 4 ''fast''] Map.empty 0
     = Inl ValueError
   \<and> recommend_main lcg16 (Artifact example_package)
       (Request [example_serving_station 2 ''ultra'', example_serving_station 4 ''fast'']
          Map.empty) 0 = Exit1
   \<and> map_sum id (\<lambda>(recs, _). map predicted_rating recs)
       (predict_ratings lcg16 example_package [example_serving_station 4 ''fast''] Map.empty 0)
     = Inr [3.05]"
proof -
  have a: "predict_ratings lcg16 example_package
     [example_serving_station 2 ''ultra'', example_serving_station 4 ''fast''] Map.empty 0
     = Inl ValueError"
    by (simp add: serving_eval)
  have b: "map_sum id (\<lambda>(recs, _). map predicted_rating recs)
       (predict_ratings lcg16 example_package [example_serving_station 4 ''fast''] Map.empty 0)
     = Inr [3.05]"
    by (simp add: serving_eval)
  from a b show ?thesis by (simp add: recommend_main_def load_model_def)
qed

text \<open>
  C4 (fails on the code as stated). The claim: every caller that fails to load the
  artifact falls back to rule-based scoring. The serving script has no rule-based scorer:
  with the artifact missing and one station to score it exits with status 1.
\<close>

theorem serving_script_exits_without_artifact:
  "recommend_main lcg16 Missing
     (Request [example_serving_station 2 ''superfast''] Map.empty) 0 = Exit1"
  by (simp add: recommend_main_def load_model_def print_error_def ebind_def)

text \<open>
  C4, amended. A missing or corrupt artifact is handled by both callers: the serving
  script answers an empty station list with an empty array and otherwise exits with
  status 1, printing nothing on standard output; the tester falls back to the rule-based
  recommendations (and reports nothing when no station is near).
\<close>

theorem artifact_load_failure_is_handled:
  "recommend_main g Missing (Request stations prefs) s
     = (if stations = [] then Printed [] else Exit1)
   \<and> recommend_main g Corrupt (Request stations prefs) s
     = (if stations = [] then Printed [] else Exit1)
   \<and> test_recommendations_for_location (load_trained_model Missing) prefs nearby
     = (if nearby = [] then None else Some (get_simple_recommendations prefs nearby))
   \<and> test_recommendations_for_location (load_trained_model Corrupt) prefs nearby
     = (if nearby = [] then None else Some (get_simple_recommendations prefs nearby))"
  by (simp add: recommend_main_def load_model_def print_error_def ebind_def
      test_recommendations_for_location_def load_trained_model_def)

lemma serving_feature_row_prefs:
  assumes "prefs_get p ''battery_capacity_kwh'' 45 = prefs_get q ''battery_capacity_kwh'' 45"
    and "prefs_get p ''is_price_sensitive'' 0 = prefs_get q ''is_price_sensitive'' 0"
  shows "serving_feature_row names p = serving_feature_row names q"
  using assms by (simp add: serving_feature_row_def fun_eq_iff)

text \<open>
  Two preference objects that agree on the two fields, defaults applied, get the same
  answer from predict\_ratings.
\<close>

lemma predict_ratings_prefs_cong:
  assumes "prefs_get p ''battery_capacity_kwh'' 45 = prefs_get q ''battery_capacity_kwh'' 45"
    and "prefs_get p ''is_price_sensitive'' 0 = prefs_get q ''is_price_sensitive'' 0"
  shows "predict_ratings g pkg stations p s = predict_ratings g pkg stations q s"
  using serving_feature_row_prefs [OF assms] by (simp add: predict_ratings_def)

text \<open>
  The tester reads the preferences the same way, under the key \<^verbatim>\<open>battery_capacity\<close>.
\<close>

lemma tester_predict_prefs_cong:
  assumes "prefs_get p ''battery_capacity'' 45 = prefs_get q ''battery_capacity'' 45"
    and "prefs_get p ''is_price_sensitive'' 0 = prefs_get q ''is_price_sensitive'' 0"
  shows "tester_predict pkg p st = tester_predict pkg q st"
proof -
  have eq: "tester_feature_data names p = tester_feature_data names q" for names
    using assms by (simp add: tester_feature_data_def fun_eq_iff)
  show ?thesis unfolding tester_predict_def eq by (rule refl)
qed

text \<open>
  C10. At the serving boundary the \<^verbatim>\<open>battery_capacity\<close> column of every feature row holds
  the \<^verbatim>\<open>battery_capacity_kwh\<close> of the preference object, or 45 when it is omitted, and
  the \<^verbatim>\<open>is_price_sensitive\<close> column holds \<^verbatim>\<open>is_price_sensitive\<close>, or 0. The answer for
  a preference object is the answer for the object that holds exactly these two values:
  nothing else of the object is read. With the bundle \<open>example_package\<close>, whose regressor
  reads both columns, the rating of a station at 2 km is the regressor's value at the
  supplied or default preferences, clamped and rounded.
\<close>

theorem serving_preferences_defaults:
  "map_of (serving_feature_row names prefs st slots reliability encoded) ''battery_capacity''
     = Some (Fin (case prefs ''battery_capacity_kwh'' of None \<Rightarrow> 45 | Some v \<Rightarrow> v))
   \<and> map_of (serving_feature_row names prefs st slots reliability encoded) ''is_price_sensitive''
     = Some (Fin (case prefs ''is_price_sensitive'' of None \<Rightarrow> 0 | Some v \<Rightarrow> v))
   \<and> predict_ratings g pkg stations prefs s
     = predict_ratings g pkg stations
         [''battery_capacity_kwh'' \<mapsto> prefs_get prefs ''battery_capacity_kwh'' 45,
          ''is_price_sensitive'' \<mapsto> prefs_get prefs ''is_price_sensitive'' 0] s
   \<and> map_sum id (\<lambda>(recs, _). map predicted_rating recs)
       (predict_ratings lcg16 example_package [example_serving_station 2 ''superfast'']
          prefs 0)
     = Inr [py_round (max 1 (min 5
          (3 + (case prefs ''battery_capacity_kwh'' of None \<Rightarrow> 45 | Some v \<Rightarrow> v) / 100
             - 2 / 10
             + (case prefs ''is_price_sensitive'' of None \<Rightarrow> 0 | Some v \<Rightarrow> v) / 2))) 2]
   \<and> prefs_get Map.empty ''battery_capacity_kwh'' 45 = 45
   \<and> prefs_get Map.empty ''is_price_sensitive'' 0 = 0"
proof -
  have columns:
    "map_of (serving_feature_row names prefs st slots reliability encoded) ''battery_capacity''
       = Some (Fin (case prefs ''battery_capacity_kwh'' of None \<Rightarrow> 45 | Some v \<Rightarrow> v))"
    "map_of (serving_feature_row names prefs st slots reliability encoded) ''is_price_sensitive''
       = Some (Fin (case prefs ''is_price_sensitive'' of None \<Rightarrow> 0 | Some v \<Rightarrow> v))"
    by (simp_all add: serving_feature_row_def prefs_get_def Let_def)
  have copy: "predict_ratings g pkg stations prefs s
   = predict_ratings g pkg stations
       [''battery_capacity_kwh'' \<mapsto> prefs_get prefs ''battery_capacity_kwh'' 45,
        ''is_price_sensitive'' \<mapsto> prefs_get prefs ''is_price_sensitive'' 0] s"
    by (rule predict_ratings_prefs_cong) (simp_all add: prefs_get_def)
  have probe: "map_sum id (\<lambda>(recs, _). map predicted_rating recs)
       (predict_ratings lcg16 example_package [example_serving_station 2 ''superfast'']
          prefs 0)
     = Inr [py_round (max 1 (min 5
          (3 + (case prefs ''battery_capacity_kwh'' of None \<Rightarrow> 45 | Some v \<Rightarrow> v) / 100
             - 2 / 10
             + (case prefs ''is_price_sensitive'' of None \<Rightarrow> 0 | Some v \<Rightarrow> v) / 2))) 2]"
    by (simp add: predict_ratings_def serving_simulation_def lcg16_def np_randint_each_def
        ebind_def np_uniform_def np_uniform_n_def lcg_next_def example_package_def
        example_serving_station_def encoder_transform_def serving_feature_row_def
        select_columns_def training_feature_names_def prefs_get_def
        serving_availability_ratio_def serving_power_efficiency_def
        serving_value_score_def fillna_def serving_distance_category_def pd_cut_def
        astype_float_def Let_def)
  from columns copy probe show ?thesis by (simp add: prefs_get_def)
qed

lemma serving_defaults_example:
  "map_sum id (\<lambda>(recs, _). map predicted_rating recs)
     (predict_ratings lcg16 example_package [example_serving_station 2 ''superfast'']
        Map.empty 0) = Inr [3.25]
   \<and> map_sum id (\<lambda>(recs, _). map predicted_rating recs)
     (predict_ratings lcg16 example_package [example_serving_station 2 ''superfast'']
        [''battery_capacity_kwh'' \<mapsto> 72] 0) = Inr [3.52]"
  by (simp add: serving_eval)

subsection \<open>GeoDistance in exact arithmetic\<close>




lemma distance_same_point: "calculate_distance lat lng lat lng = 0"
  by (simp add: calculate_distance_def haversine_a_def)

lemma distance_full_turn: "calculate_distance 0 0 0 360 = 0"
  by (simp add: calculate_distance_def haversine_a_def radians_def)











subsection \<open>InteractionSimulator\<close>

lemma rint_of_int: "rint (of_int k) = k"
  by (simp add: rint_def)

lemma rint_lower: "of_int a \<le> x \<Longrightarrow> a \<le> rint x"
proof -
  assume "of_int a \<le> x"
  then have "a \<le> \<lfloor>x\<rfloor>" by (simp add: le_floor_iff)
  then show ?thesis by (auto simp: rint_def Let_def)
qed

lemma rint_upper: "x \<le> of_int b \<Longrightarrow> rint x \<le> b"
proof -
  assume h: "x \<le> of_int b"
  then have f: "\<lfloor>x\<rfloor> \<le> b" by (simp add: floor_le_iff)
  show ?thesis
  proof (cases "\<lfloor>x\<rfloor> = b")
    case True
    then have "x - of_int \<lfloor>x\<rfloor> \<le> 0" using h by simp
    then show ?thesis using True by (simp add: rint_def Let_def)
  next
    case False
    with f have "\<lfloor>x\<rfloor> + 1 \<le> b" by simp
    then show ?thesis by (auto simp: rint_def Let_def)
  qed
qed

text \<open>Rounding a clamped rating to one decimal keeps it in range, and rounding again changes nothing.\<close>

lemma py_round_clamped:
  "1 \<le> py_round (max 1 (min 5 x)) 1 \<and> py_round (max 1 (min 5 x)) 1 \<le> 5
   \<and> py_round (py_round (max 1 (min 5 x)) 1) 1 = py_round (max 1 (min 5 x)) 1"
proof -
  define y where "y = max 1 (min 5 x)"
  have y: "1 \<le> y" "y \<le> 5" by (auto simp: y_def)
  have "of_int 10 \<le> y * 10" using y by simp
  then have a: "10 \<le> rint (y * 10)" by (rule rint_lower)
  have "y * 10 \<le> of_int 50" using y by simp
  then have b: "rint (y * 10) \<le> 50" by (rule rint_upper)
  from a have "(10::real) \<le> of_int (rint (y * 10))" by linarith
  then have 1: "1 \<le> py_round y 1" by (simp add: py_round_def)
  from b have "of_int (rint (y * 10)) \<le> (50::real)" by linarith
  then have 2: "py_round y 1 \<le> 5" by (simp add: py_round_def)
  have 3: "py_round (py_round y 1) 1 = py_round y 1"
    by (simp add: py_round_def rint_of_int)
  from 1 2 3 show ?thesis unfolding y_def by blast
qed

lemma ebind_Inr: "ebind m f = Inr v \<Longrightarrow> \<exists>x. m = Inr x \<and> f x = Inr v"
  by (cases m) (simp_all add: ebind_def)

lemma rating_shape:
  assumes "calculate_user_rating g user st d slots price s = Inr (r, s')"
  shows "\<exists>x. r = py_round (max 1.0 (min 5.0 x)) 1"
  using assms
  apply (simp only: calculate_user_rating_def Let_def)
  apply (drule ebind_Inr, elim exE conjE)
  apply (drule ebind_Inr, elim exE conjE)
  apply (cases "rng_normal g 0 0.4 s")
  apply (simp only: prod.case sum.inject prod.inject)
  apply blast
  done

lemma rating_range:
  assumes "calculate_user_rating g user st d slots price s = Inr (r, s')"
  shows "1 \<le> r \<and> r \<le> 5 \<and> py_round r 1 = r"
proof -
  from rating_shape [OF assms] obtain x where "r = py_round (max 1 (min 5 x)) 1" by auto
  with py_round_clamped [of x] show ?thesis by simp
qed

lemma simulate_booking_invariant:
  assumes "simulate_booking g user acc k s = Inr (Some b, s')"
  shows "(booking_completed b = 1 \<longleftrightarrow> available_slots_at_booking b > 0)
         \<and> 1 \<le> user_rating b \<and> user_rating b \<le> 5
         \<and> py_round (user_rating b) 1 = user_rating b"
  using assms
  by (auto simp: simulate_booking_def ebind_def Let_def
      split: sum.splits prod.splits option.splits dest!: rating_range)
     (simp_all split: if_splits)

lemma booking_loop_invariant:
  assumes "booking_loop g user acc nums s = Inr (bookings, s')" "b \<in> set bookings"
  shows "(booking_completed b = 1 \<longleftrightarrow> available_slots_at_booking b > 0)
         \<and> 1 \<le> user_rating b \<and> user_rating b \<le> 5
         \<and> py_round (user_rating b) 1 = user_rating b"
  using assms
proof (induction nums arbitrary: s bookings s')
  case Nil
  then show ?case by simp
next
  case (Cons k nums)
  from Cons.prems(1) obtain made s1 rest where
    m: "simulate_booking g user acc k s = Inr (made, s1)"
    and r: "booking_loop g user acc nums s1 = Inr (rest, s')"
    and bs: "bookings = (case made of None \<Rightarrow> rest | Some b \<Rightarrow> b # rest)"
    by (auto simp: ebind_def split: sum.splits prod.splits)
  show ?case
  proof (cases "b \<in> set rest")
    case True
    with Cons.IH [OF r] show ?thesis .
  next
    case False
    with Cons.prems(2) bs have "made = Some b" by (auto split: option.splits)
    with m show ?thesis by (auto dest: simulate_booking_invariant)
  qed
qed

text \<open>A run: the example user books once, the generator \<open>lcg16\<close> being in state 8.\<close>

lemma example_rating:
  "calculate_user_rating lcg16 example_user example_sim_station 0 1 (297 / 25) 5 = Inr (3.9, 12)"
  by (simp add: calculate_user_rating_def example_user_def example_sim_station_def
      example_station_def station.extend_def lcg16_def lcg_next_def ebind_def py_round_def
      rint_def)

lemma example_selection:
  "select_station_realistically lcg16 example_user [(example_sim_station, 0)] 8
   = Inr (Some (example_sim_station, 0), 11)"
  by (simp add: select_station_realistically_def selection_prob_def example_user_def
      example_sim_station_def example_station_def station.extend_def lcg16_def lcg_next_def
      ebind_def iloc_def)

lemma example_booking:
  "map_sum id (\<lambda>(made, _). map_option (\<lambda>b. (available_slots_at_booking b,
       booking_completed b, user_rating b)) made)
     (simulate_booking lcg16 example_user [(example_sim_station, 0)] 0 8)
   = Inr (Some (1, 1, 3.9))"
proof -
  have a: "rng_randint lcg16 1 180 11 = (124, 10)" by (simp add: lcg16_def lcg_next_def)
  have b: "rng_randint lcg16 0 (int (total_connections example_sim_station) + 1) 10 = (1, 5)"
    by (simp add: lcg16_def lcg_next_def example_sim_station_def example_station_def
        station.extend_def)
  have c: "simulated_price_per_kwh example_sim_station = 11.88"
    by (simp add: example_sim_station_def station.extend_def)
  show ?thesis
    by (simp add: simulate_booking_def example_selection a b c example_rating ebind_def
        Let_def)
qed

lemma example_bookings:
  "map_sum id (\<lambda>(bs, _). map (\<lambda>b. (available_slots_at_booking b, booking_completed b,
       user_rating b)) bs)
     (simulate_user_bookings lcg16 example_user [example_sim_station] 1 8)
   = Inr [(1, 1, 3.9)]"
proof -
  have d: "calculate_distance (home_latitude example_user) (home_longitude example_user)
             (latitude example_sim_station) (longitude example_sim_station) = 0"
    by (simp add: example_user_def example_sim_station_def example_station_def
        station.extend_def distance_same_point)
  obtain made s1 where
    m: "simulate_booking lcg16 example_user [(example_sim_station, 0)] 0 8 = Inr (made, s1)"
    and v: "map_option (\<lambda>b. (available_slots_at_booking b, booking_completed b,
              user_rating b)) made = Some (1, 1, 3.9)"
    using example_booking
    by (cases "simulate_booking lcg16 example_user [(example_sim_station, 0)] 0 8") auto
  show ?thesis using v
    by (auto simp: simulate_user_bookings_def d m ebind_def)
qed

text \<open>
  C8. Every booking that \_simulate\_user\_bookings returns has \<open>booking_completed = 1\<close>
  exactly when \<open>available_slots_at_booking > 0\<close>, and a rating between 1 and 5 that
  rounding to one decimal leaves unchanged.
\<close>

theorem booking_record_invariant:
  assumes "simulate_user_bookings g user stations n s = Inr (bookings, s')"
    and "b \<in> set bookings"
  shows "(booking_completed b = 1 \<longleftrightarrow> available_slots_at_booking b > 0)
         \<and> 1 \<le> user_rating b \<and> user_rating b \<le> 5
         \<and> py_round (user_rating b) 1 = user_rating b"
proof -
  from assms obtain acc where "booking_loop g user acc [0..<n] s = Inr (bookings, s')"
    by (auto simp: simulate_user_bookings_def Let_def split: if_splits)
  then show ?thesis using assms(2) by (rule booking_loop_invariant)
qed

theorem booking_record_invariant_witness:
  "\<exists>bookings s' b.
     simulate_user_bookings lcg16 example_user [example_sim_station] 1 8 = Inr (bookings, s')
     \<and> b \<in> set bookings
     \<and> available_slots_at_booking b = 1 \<and> booking_completed b = 1 \<and> user_rating b = 3.9
     \<and> 1 \<le> user_rating b \<and> user_rating b \<le> 5
     \<and> py_round (user_rating b) 1 = user_rating b"
proof -
  obtain bookings s' where
    run: "simulate_user_bookings lcg16 example_user [example_sim_station] 1 8
          = Inr (bookings, s')"
    and v: "map (\<lambda>b. (available_slots_at_booking b, booking_completed b, user_rating b))
              bookings = [(1, 1, 3.9)]"
    using example_bookings
    by (cases "simulate_user_bookings lcg16 example_user [example_sim_station] 1 8") auto
  from v obtain b where b: "bookings = [b]" "available_slots_at_booking b = 1"
    "booking_completed b = 1" "user_rating b = 3.9"
    by auto
  then have mem: "b \<in> set bookings" by simp
  from booking_record_invariant [OF run mem] b run mem show ?thesis by blast
qed

end
